theory Spec2Isabelle
  imports Complex_Main "HOL-Library.Word" "HOL-Library.Log_Nat"
begin

section \<open>The admin console of the storefront (frontend/src/pages/Admin.js)\<close>

text \<open>
  The component \<^verbatim>\<open>Admin\<close> keeps six pieces of React state and reacts to user events
  through handlers. Each handler is embedded as a function from the state before the
  event to the list of effects it performs on the outside world (file reads, image
  decodes, backend calls, console output) and the state after it. The browser, the
  JavaScript engine and the backend are not part of the repository: their answers are
  the fields of an environment record, and every theorem holds for every environment.

  Each handler is modelled as running to completion before the next event is handled,
  so the \<^verbatim>\<open>await\<close> points inside a handler are not interleaved with other handlers.
\<close>

subsection \<open>JavaScript numbers\<close>

text \<open>
  A JavaScript number is an IEEE 754 binary64 value. A finite one is held as the
  rational it denotes; the two zeros are identified, since no test in this file tells
  them apart (both are falsy, both are \<^verbatim>\<open><= 0\<close>, neither is \<^verbatim>\<open>< 0\<close>).
\<close>

datatype jsnum = NaN | PosInf | NegInf | Fin rat

definition pow2 :: "int \<Rightarrow> rat" where
  "pow2 e = (if 0 \<le> e then 2 ^ nat e else 1 / 2 ^ nat (- e))"

definition pow10 :: "int \<Rightarrow> rat" where
  "pow10 e = (if 0 \<le> e then 10 ^ nat e else 1 / 10 ^ nat (- e))"

text \<open>\<open>ilog2 x\<close> is the binary exponent of a positive rational: the largest \<open>e\<close> with \<open>2\<^sup>e \<le> x\<close>.\<close>

definition ilog2 :: "rat \<Rightarrow> int" where
  "ilog2 x = (if 1 \<le> x then bitlen \<lfloor>x\<rfloor> - 1 else - bitlen (\<lceil>1 / x\<rceil> - 1))"

definition round_half_even :: "rat \<Rightarrow> int" where
  "round_half_even x =
     (let f = \<lfloor>x\<rfloor>; d = x - of_int f
      in if d < 1 / 2 then f else if 1 / 2 < d then f + 1 else if even f then f else f + 1)"

text \<open>
  \<open>fl x\<close> rounds a rational to the nearest binary64 value, ties to even, with the
  exponent range unbounded above: 53 significant bits for normal values, the fixed
  quantum \<open>2\<^sup>-\<^sup>1\<^sup>0\<^sup>7\<^sup>4\<close> for subnormal ones. \<open>round_double\<close> adds the overflow to an infinity.
\<close>

definition fl :: "rat \<Rightarrow> rat" where
  "fl x = (if x = 0 then 0
           else let e = max (ilog2 \<bar>x\<bar>) (- 1022); q = pow2 (e - 52)
                in of_int (round_half_even (x / q)) * q)"

definition round_double :: "rat \<Rightarrow> jsnum" where
  "round_double x =
     (let y = fl x
      in if 2 ^ 1024 \<le> y then PosInf else if y \<le> - (2 ^ 1024) then NegInf else Fin y)"

definition isNaN :: "jsnum \<Rightarrow> bool" where
  "isNaN x = (x = NaN)"

fun js_lt :: "jsnum \<Rightarrow> jsnum \<Rightarrow> bool" where
  "js_lt NaN _ = False"
| "js_lt _ NaN = False"
| "js_lt PosInf _ = False"
| "js_lt _ NegInf = False"
| "js_lt NegInf _ = True"
| "js_lt (Fin a) PosInf = True"
| "js_lt (Fin a) (Fin b) = (a < b)"

definition js_le :: "jsnum \<Rightarrow> jsnum \<Rightarrow> bool" where
  "js_le a b = (\<not> isNaN a \<and> \<not> isNaN b \<and> \<not> js_lt b a)"

definition num_truthy :: "jsnum \<Rightarrow> bool" where
  "num_truthy x = (case x of NaN \<Rightarrow> False | Fin r \<Rightarrow> r \<noteq> 0 | _ \<Rightarrow> True)"

text \<open>The idiom \<^verbatim>\<open>x || 0\<close> on a number.\<close>

definition or_zero :: "jsnum \<Rightarrow> jsnum" where
  "or_zero x = (if num_truthy x then x else Fin 0)"

subsection \<open>Form values, \<^verbatim>\<open>parseFloat\<close> and \<^verbatim>\<open>parseInt\<close>\<close>

text \<open>
  A form field holds the string typed into an input, or the raw value copied from a
  product by \<^verbatim>\<open>handleEdit\<close>, which for price and stock is a number.
\<close>

datatype jsval = Str string | Num jsnum

definition truthy :: "jsval \<Rightarrow> bool" where
  "truthy v = (case v of Str s \<Rightarrow> s \<noteq> [] | Num x \<Rightarrow> num_truthy x)"

text \<open>The idiom \<^verbatim>\<open>v || ''\<close>.\<close>

definition or_empty :: "jsval \<Rightarrow> jsval" where
  "or_empty v = (if truthy v then v else Str [])"

definition startsWith :: "string \<Rightarrow> string \<Rightarrow> bool" where
  "startsWith s p = (take (length p) s = p)"

text \<open>\<^verbatim>\<open>s.split(c)\<close> for a one-character separator, and \<^verbatim>\<open>xs[i]\<close> with \<open>None\<close> for \<^verbatim>\<open>undefined\<close>.\<close>

fun split_on :: "char \<Rightarrow> string \<Rightarrow> string list" where
  "split_on c [] = [[]]"
| "split_on c (x # xs) =
     (if x = c then [] # split_on c xs
      else (case split_on c xs of [] \<Rightarrow> [[x]] | p # ps \<Rightarrow> (x # p) # ps))"

definition index :: "'a list \<Rightarrow> nat \<Rightarrow> 'a option" where
  "index xs i = (if i < length xs then Some (xs ! i) else None)"

text \<open>
  White space that the two parsers skip at the start of a string: the one-byte
  members of the ECMAScript classes WhiteSpace and LineTerminator.
\<close>

definition isWhiteSpace :: "char \<Rightarrow> bool" where
  "isWhiteSpace c = (of_char c \<in> {9, 10, 11, 12, 13, 32, 160 :: nat})"

definition isDigit :: "char \<Rightarrow> bool" where
  "isDigit c = (48 \<le> (of_char c :: nat) \<and> (of_char c :: nat) \<le> 57)"

definition digitsValue :: "string \<Rightarrow> nat" where
  "digitsValue ds = foldl (\<lambda>n c. 10 * n + (of_char c - 48)) 0 ds"

text \<open>An optional sign: whether it was a minus, and the rest of the string.\<close>

definition takeSign :: "string \<Rightarrow> bool \<times> string" where
  "takeSign s =
     (case s of
        [] \<Rightarrow> (False, [])
      | c # r \<Rightarrow> if c = CHR ''-'' then (True, r) else if c = CHR ''+'' then (False, r) else (False, s))"

definition signed :: "bool \<Rightarrow> rat \<Rightarrow> rat" where
  "signed neg x = (if neg then - x else x)"

text \<open>\<^verbatim>\<open>parseInt(s, 10)\<close>: the longest prefix of decimal digits after white space and sign.\<close>

definition parseIntStr :: "string \<Rightarrow> jsnum" where
  "parseIntStr s =
     (let (neg, r) = takeSign (dropWhile isWhiteSpace s);
          ds = takeWhile isDigit r
      in if ds = [] then NaN else round_double (signed neg (of_nat (digitsValue ds))))"

text \<open>
  An exponent part \<^verbatim>\<open>e\<close>, \<^verbatim>\<open>E\<close> with optional sign counts only when a digit follows it.
\<close>

definition exponentPart :: "string \<Rightarrow> int" where
  "exponentPart s =
     (case s of
        [] \<Rightarrow> 0
      | c # r \<Rightarrow>
          if c = CHR ''e'' \<or> c = CHR ''E''
          then (let (neg, r') = takeSign r; ds = takeWhile isDigit r'
                in if ds = [] then 0 else (if neg then - int (digitsValue ds) else int (digitsValue ds)))
          else 0)"

text \<open>
  \<^verbatim>\<open>parseFloat(s)\<close>: the longest prefix that is a StrDecimalLiteral, after white space.
\<close>

definition parseFloatStr :: "string \<Rightarrow> jsnum" where
  "parseFloatStr s =
     (let (neg, r) = takeSign (dropWhile isWhiteSpace s)
      in if startsWith r ''Infinity'' then (if neg then NegInf else PosInf)
         else
           let ip = takeWhile isDigit r;
               r1 = dropWhile isDigit r;
               dot = (r1 \<noteq> [] \<and> hd r1 = CHR ''.'');
               fp = (if dot then takeWhile isDigit (tl r1) else []);
               r2 = (if dot then dropWhile isDigit (tl r1) else r1)
           in if ip = [] \<and> fp = [] then NaN
              else round_double
                     (signed neg
                        ((of_nat (digitsValue ip) + of_nat (digitsValue fp) / 10 ^ length fp)
                         * pow10 (exponentPart r2))))"

subsection \<open>Data\<close>

text \<open>
  The image object of a product and of the form: \<^verbatim>\<open>{data, contentType, alt}\<close>. The field
  \<open>data\<close> is \<open>None\<close> when it is \<^verbatim>\<open>undefined\<close>.
\<close>

record image_payload =
  data :: "string option"
  contentType :: string
  alt :: jsval

text \<open>A product as the backend returns it; the component reads exactly these fields.\<close>

record product =
  p_id :: string
  p_name :: jsval
  p_description :: jsval
  p_price :: jsval
  p_category :: jsval
  p_stock :: jsval
  p_image :: "image_payload option"

text \<open>The state \<^verbatim>\<open>formData\<close> (lines 39-46); \<open>f_image = None\<close> is \<^verbatim>\<open>image: null\<close>.\<close>

record form_data =
  f_name :: jsval
  f_description :: jsval
  f_price :: jsval
  f_category :: jsval
  f_stock :: jsval
  f_image :: "image_payload option"

text \<open>The names of the five inputs that call \<^verbatim>\<open>handleInputChange\<close> (lines 403-450).\<close>

datatype field_name = FName | FDescription | FPrice | FCategory | FStock

text \<open>The object \<^verbatim>\<open>dataToSend\<close> of \<^verbatim>\<open>handleSubmit\<close> (lines 166-177).\<close>

record product_data =
  d_name :: jsval
  d_description :: jsval
  d_price :: jsnum
  d_category :: jsval
  d_stock :: jsnum
  d_image :: image_payload

text \<open>A file chosen in the file input: its declared type, its size in bytes, its name.\<close>

record jsfile =
  file_type :: string
  file_size :: nat
  file_name :: string

text \<open>
  A canvas: its two \<^verbatim>\<open>unsigned long\<close> dimensions and the \<^verbatim>\<open>drawImage\<close> calls made on it,
  each with the image source and the destination rectangle \<open>(dx, dy, dw, dh)\<close>.
\<close>

record canvas =
  canvas_width :: "32 word"
  canvas_height :: "32 word"
  drawn :: "(string \<times> rat \<times> rat \<times> rat \<times> rat) list"

text \<open>The component state (lines 33-46).\<close>

record admin_state =
  products :: "product list"
  loading :: bool
  error :: "string option"
  openDialog :: bool
  editingProduct :: "product option"
  formData :: form_data

text \<open>What a handler does to the outside world, in order.\<close>

datatype event =
    ReadAsDataURL jsfile
  | ImageLoad string
  | GetAllProducts
  | CreateProduct product_data
  | UpdateProduct string product_data
  | DeleteProduct string
  | Confirm string
  | ConsoleError string

text \<open>
  The answers of the outside world. \<open>numberToString\<close> is the engine's conversion of a
  number to a string; \<open>readAsDataURL\<close> and \<open>imageLoad\<close> are \<open>None\<close> when the reader or
  the image element fires \<^verbatim>\<open>onerror\<close>, and \<open>imageLoad\<close> gives the decoded \<^verbatim>\<open>img.width\<close> and
  \<^verbatim>\<open>img.height\<close> otherwise; \<open>toDataURL\<close> is the canvas encoder, given the canvas, the
  requested type and the quality; \<open>getAllProducts\<close> is \<open>None\<close> and the other backend
  calls are \<open>False\<close> when the promise of \<^verbatim>\<open>productService\<close> rejects.
\<close>

record env =
  numberToString :: "jsnum \<Rightarrow> string"
  readAsDataURL :: "jsfile \<Rightarrow> string option"
  imageLoad :: "string \<Rightarrow> (32 word \<times> 32 word) option"
  toDataURL :: "canvas \<Rightarrow> string \<Rightarrow> rat \<Rightarrow> string"
  getAllProducts :: "product list option"
  createProduct :: "product_data \<Rightarrow> bool"
  updateProduct :: "string \<Rightarrow> product_data \<Rightarrow> bool"
  deleteProduct :: "string \<Rightarrow> bool"
  confirm :: "string \<Rightarrow> bool"

definition toString :: "env \<Rightarrow> jsval \<Rightarrow> string" where
  "toString e v = (case v of Str s \<Rightarrow> s | Num x \<Rightarrow> numberToString e x)"

definition parseFloat :: "env \<Rightarrow> jsval \<Rightarrow> jsnum" where
  "parseFloat e v = parseFloatStr (toString e v)"

definition parseInt :: "env \<Rightarrow> jsval \<Rightarrow> jsnum" where
  "parseInt e v = parseIntStr (toString e v)"

subsection \<open>\<^verbatim>\<open>optimizeImage\<close> (lines 72-113)\<close>

definition MAX_WIDTH :: rat where
  "MAX_WIDTH = 800"

definition MAX_HEIGHT :: rat where
  "MAX_HEIGHT = 800"

text \<open>The literal \<^verbatim>\<open>0.8\<close> passed to \<^verbatim>\<open>toDataURL\<close>.\<close>

definition JPEG_QUALITY :: rat where
  "JPEG_QUALITY = fl (8 / 10)"

text \<open>
  Lines 77-94: the variables \<^verbatim>\<open>width\<close> and \<^verbatim>\<open>height\<close> after the two nested tests. The
  operands are integers below \<open>2\<^sup>3\<^sup>2\<close> and a divisor above 800, so every intermediate
  value is finite and each operation is its exact result rounded by \<open>fl\<close>.
\<close>

definition targetSize :: "32 word \<Rightarrow> 32 word \<Rightarrow> rat \<times> rat" where
  "targetSize w h =
     (let width = of_nat (unat w); height = of_nat (unat h)
      in if height < width
         then (if MAX_WIDTH < width
               then (MAX_WIDTH, fl (height * fl (MAX_WIDTH / width)))
               else (width, height))
         else (if MAX_HEIGHT < height
               then (fl (width * fl (MAX_HEIGHT / height)), MAX_HEIGHT)
               else (width, height)))"

text \<open>
  Assigning a number to \<^verbatim>\<open>canvas.width\<close> converts it to \<^verbatim>\<open>unsigned long\<close>: the fraction
  is dropped and the result taken modulo \<open>2\<^sup>3\<^sup>2\<close>.
\<close>

definition toUnsignedLong :: "rat \<Rightarrow> 32 word" where
  "toUnsignedLong x = word_of_int (if 0 \<le> x then \<lfloor>x\<rfloor> else \<lceil>x\<rceil>)"

text \<open>Lines 76-100: the canvas after sizing it and drawing the image loaded from \<open>src\<close>.\<close>

definition optimizeCanvas :: "string \<Rightarrow> 32 word \<Rightarrow> 32 word \<Rightarrow> canvas" where
  "optimizeCanvas src w h =
     (let (width, height) = targetSize w h
      in \<lparr>canvas_width = toUnsignedLong width, canvas_height = toUnsignedLong height,
          drawn = [(src, 0, 0, width, height)]\<rparr>)"

datatype image_error = ReaderError | ImageError

text \<open>The promise: \<open>Inr\<close> the data URL it resolves to, \<open>Inl\<close> when it rejects.\<close>

definition optimizeImage :: "env \<Rightarrow> jsfile \<Rightarrow> event list \<times> (image_error + string)" where
  "optimizeImage e f =
     (case readAsDataURL e f of
        None \<Rightarrow> ([ReadAsDataURL f], Inl ReaderError)
      | Some src \<Rightarrow>
          (case imageLoad e src of
             None \<Rightarrow> ([ReadAsDataURL f, ImageLoad src], Inl ImageError)
           | Some (w, h) \<Rightarrow>
               ([ReadAsDataURL f, ImageLoad src],
                Inr (toDataURL e (optimizeCanvas src w h) ''image/jpeg'' JPEG_QUALITY))))"

subsection \<open>The handlers\<close>

text \<open>\<^verbatim>\<open>fetchProducts\<close> (lines 48-58).\<close>

definition fetchProducts :: "env \<Rightarrow> admin_state \<Rightarrow> event list \<times> admin_state" where
  "fetchProducts e s =
     (case getAllProducts e of
        Some d \<Rightarrow> ([GetAllProducts], s\<lparr>products := d, loading := False\<rparr>)
      | None \<Rightarrow>
          ([GetAllProducts, ConsoleError ''Error fetching products:''],
           s\<lparr>error := Some ''Failed to load products'', loading := False\<rparr>))"

text \<open>\<^verbatim>\<open>handleInputChange\<close> (lines 64-70).\<close>

definition handleInputChange :: "admin_state \<Rightarrow> field_name \<Rightarrow> string \<Rightarrow> admin_state" where
  "handleInputChange s n v =
     s\<lparr>formData :=
         (case n of
            FName \<Rightarrow> (formData s)\<lparr>f_name := Str v\<rparr>
          | FDescription \<Rightarrow> (formData s)\<lparr>f_description := Str v\<rparr>
          | FPrice \<Rightarrow> (formData s)\<lparr>f_price := Str v\<rparr>
          | FCategory \<Rightarrow> (formData s)\<lparr>f_category := Str v\<rparr>
          | FStock \<Rightarrow> (formData s)\<lparr>f_stock := Str v\<rparr>)\<rparr>"

text \<open>
  \<^verbatim>\<open>handleImageChange\<close> (lines 115-149); the argument is \<^verbatim>\<open>e.target.files[0]\<close>, \<open>None\<close>
  when no file is selected.
\<close>

definition handleImageChange :: "env \<Rightarrow> admin_state \<Rightarrow> jsfile option \<Rightarrow> event list \<times> admin_state" where
  "handleImageChange e s fo =
     (case fo of
        None \<Rightarrow> ([], s)
      | Some f \<Rightarrow>
          if \<not> startsWith (file_type f) ''image/''
          then ([], s\<lparr>error := Some ''Please select an image file''\<rparr>)
          else if 5 * 1024 * 1024 < file_size f
          then ([], s\<lparr>error := Some ''Image size should be less than 5MB''\<rparr>)
          else
            (case optimizeImage e f of
               (evs, Inl err) \<Rightarrow>
                 (evs @ [ConsoleError ''Image processing error:''],
                  s\<lparr>error := Some ''Error processing the image''\<rparr>)
             | (evs, Inr optimizedDataUrl) \<Rightarrow>
                 (evs,
                  s\<lparr>formData := (formData s)
                       \<lparr>f_image := Some \<lparr>data = index (split_on CHR '','' optimizedDataUrl) 1,
                                         contentType = ''image/jpeg'',
                                         alt = or_empty (f_name (formData s))\<rparr>\<rparr>,
                    error := None\<rparr>)))"

text \<open>Whether \<^verbatim>\<open>image.data\<close> is truthy: neither \<^verbatim>\<open>undefined\<close> nor the empty string.\<close>

definition truthyData :: "string option \<Rightarrow> bool" where
  "truthyData d = (case d of None \<Rightarrow> False | Some b \<Rightarrow> b \<noteq> [])"

text \<open>Lines 166-177, for the image found by the test of line 160.\<close>

definition dataToSend :: "env \<Rightarrow> form_data \<Rightarrow> image_payload \<Rightarrow> product_data" where
  "dataToSend e fd img =
     \<lparr>d_name = f_name fd,
      d_description = f_description fd,
      d_price = or_zero (parseFloat e (f_price fd)),
      d_category = f_category fd,
      d_stock = or_zero (parseInt e (f_stock fd)),
      d_image = \<lparr>data = data img, contentType = contentType img, alt = f_name fd\<rparr>\<rparr>"

text \<open>Lines 196-203.\<close>

definition submittedForm :: form_data where
  "submittedForm =
     \<lparr>f_name = Str [], f_description = Str [], f_price = Str [], f_category = Str ''men'',
      f_stock = Str ''0'', f_image = None\<rparr>"

text \<open>Lines 196-207: what follows a save that the backend accepted.\<close>

definition afterSave :: "env \<Rightarrow> admin_state \<Rightarrow> event list \<times> admin_state" where
  "afterSave e s =
     fetchProducts e
       (s\<lparr>formData := submittedForm, error := None, editingProduct := None,
          openDialog := False\<rparr>)"

text \<open>
  Lines 165-211: the \<^verbatim>\<open>try\<close> block of \<^verbatim>\<open>handleSubmit\<close>, entered with the image that
  passed the test of line 160.
\<close>

definition validateAndSave ::
  "env \<Rightarrow> admin_state \<Rightarrow> image_payload \<Rightarrow> event list \<times> admin_state" where
  "validateAndSave e s img =
     (let d = dataToSend e (formData s) img
      in if isNaN (d_price d) \<or> js_le (d_price d) (Fin 0)
         then ([], s\<lparr>error := Some ''Please enter a valid price''\<rparr>)
         else if isNaN (d_stock d) \<or> js_lt (d_stock d) (Fin 0)
         then ([], s\<lparr>error := Some ''Please enter a valid stock quantity''\<rparr>)
         else
           (case editingProduct s of
              Some p \<Rightarrow>
                if updateProduct e (p_id p) d
                then (let (evs, s') = afterSave e s in (UpdateProduct (p_id p) d # evs, s'))
                else ([UpdateProduct (p_id p) d, ConsoleError ''Error saving product:''],
                      s\<lparr>error := Some ''Failed to save product''\<rparr>)
            | None \<Rightarrow>
                if createProduct e d
                then (let (evs, s') = afterSave e s in (CreateProduct d # evs, s'))
                else ([CreateProduct d, ConsoleError ''Error saving product:''],
                      s\<lparr>error := Some ''Failed to save product''\<rparr>)))"

text \<open>
  \<^verbatim>\<open>handleSubmit\<close> (lines 151-212). The test \<^verbatim>\<open>!formData.image?.data\<close> of line 160 fails
  for a null image and for an image whose data is not truthy.
\<close>

definition handleSubmit :: "env \<Rightarrow> admin_state \<Rightarrow> event list \<times> admin_state" where
  "handleSubmit e s =
     (let fd = formData s
      in if \<not> truthy (f_name fd) \<or> \<not> truthy (f_description fd) \<or> \<not> truthy (f_price fd)
            \<or> \<not> truthy (f_category fd)
         then ([], s\<lparr>error := Some ''Please fill in all required fields''\<rparr>)
         else
           (case f_image fd of
              None \<Rightarrow> ([], s\<lparr>error := Some ''Please select an image''\<rparr>)
            | Some img \<Rightarrow>
                if \<not> truthyData (data img)
                then ([], s\<lparr>error := Some ''Please select an image''\<rparr>)
                else validateAndSave e s img))"

text \<open>\<^verbatim>\<open>handleDelete\<close> (lines 214-224).\<close>

definition handleDelete :: "env \<Rightarrow> admin_state \<Rightarrow> string \<Rightarrow> event list \<times> admin_state" where
  "handleDelete e s productId =
     (if confirm e ''Are you sure you want to delete this product?''
      then (if deleteProduct e productId
            then (let (evs, s') = fetchProducts e s
                  in (Confirm ''Are you sure you want to delete this product?''
                      # DeleteProduct productId # evs, s'))
            else ([Confirm ''Are you sure you want to delete this product?'',
                   DeleteProduct productId, ConsoleError ''Error deleting product:''],
                  s\<lparr>error := Some ''Failed to delete product''\<rparr>))
      else ([Confirm ''Are you sure you want to delete this product?''], s))"

text \<open>\<^verbatim>\<open>handleEdit\<close> (lines 226-237).\<close>

definition handleEdit :: "admin_state \<Rightarrow> product \<Rightarrow> admin_state" where
  "handleEdit s p =
     s\<lparr>editingProduct := Some p,
       formData :=
         \<lparr>f_name = p_name p, f_description = p_description p, f_price = p_price p,
          f_category = p_category p, f_stock = p_stock p, f_image = None\<rparr>,
       openDialog := True\<rparr>"

text \<open>The dialog's \<^verbatim>\<open>onClose\<close> and the Cancel button (lines 379-390 and 461-472).\<close>

definition closedForm :: form_data where
  "closedForm =
     \<lparr>f_name = Str [], f_description = Str [], f_price = Str [], f_category = Str [],
      f_stock = Str [], f_image = None\<rparr>"

definition handleClose :: "admin_state \<Rightarrow> admin_state" where
  "handleClose s = s\<lparr>openDialog := False, editingProduct := None, formData := closedForm\<rparr>"

subsection \<open>Conditions on the form and on a selected file\<close>

text \<open>The four tests of line 155, negated.\<close>

definition requiredFilled :: "form_data \<Rightarrow> bool" where
  "requiredFilled fd =
     (truthy (f_name fd) \<and> truthy (f_description fd) \<and> truthy (f_price fd)
      \<and> truthy (f_category fd))"

text \<open>A file that passes the two tests of lines 120 and 126 and that the browser decodes.\<close>

definition accepted :: "env \<Rightarrow> jsfile \<Rightarrow> bool" where
  "accepted e f =
     (startsWith (file_type f) ''image/'' \<and> file_size f \<le> 5 * 1024 * 1024
      \<and> (case snd (optimizeImage e f) of Inl err \<Rightarrow> False | Inr url \<Rightarrow> True))"

text \<open>What the admin can do to the open form before submitting it.\<close>

datatype form_event = InputChange field_name string | ImageChange "jsfile option"

fun formEvent :: "env \<Rightarrow> admin_state \<Rightarrow> form_event \<Rightarrow> admin_state" where
  "formEvent e s (InputChange n v) = handleInputChange s n v"
| "formEvent e s (ImageChange fo) = snd (handleImageChange e s fo)"

text \<open>An event that is not the selection of an accepted file.\<close>

fun noNewImage :: "env \<Rightarrow> form_event \<Rightarrow> bool" where
  "noNewImage e (InputChange n v) = True"
| "noNewImage e (ImageChange None) = True"
| "noNewImage e (ImageChange (Some f)) = (\<not> accepted e f)"

text \<open>The two tests of lines 180 and 185, negated.\<close>

definition passesValidation :: "env \<Rightarrow> form_data \<Rightarrow> bool" where
  "passesValidation e fd =
     (let price = or_zero (parseFloat e (f_price fd)); stock = or_zero (parseInt e (f_stock fd))
      in \<not> (isNaN price \<or> js_le price (Fin 0)) \<and> \<not> (isNaN stock \<or> js_lt stock (Fin 0)))"

subsection \<open>Example inputs\<close>

text \<open>The state the component starts in (lines 33-46).\<close>

definition initialState :: admin_state where
  "initialState =
     \<lparr>products = [], loading = True, error = None, openDialog = False, editingProduct = None,
      formData = closedForm\<rparr>"

text \<open>
  The engine's conversion of a number to a string (Number::toString of ECMA-262, radix
  10): the shortest string of decimal digits that reads back as the same binary64
  value, printed without an exponent when its decimal point falls within 21 digits
  to the left or 6 zeros to the right.
\<close>

function decimalDigits :: "int \<Rightarrow> string" where
  "decimalDigits n =
     (if n < 10 then [char_of (48 + n)]
      else decimalDigits (n div 10) @ [char_of (48 + n mod 10)])"
  by pat_completeness auto
termination
  by (relation "measure nat") auto

text \<open>\<open>ilog10 x\<close> is the decimal exponent of a positive rational: the largest \<open>e\<close> with \<open>10\<^sup>e \<le> x\<close>.\<close>

definition ilog10 :: "rat \<Rightarrow> int" where
  "ilog10 x =
     (if 1 \<le> x then int (length (decimalDigits \<lfloor>x\<rfloor>)) - 1
      else - int (length (decimalDigits (\<lceil>1 / x\<rceil> - 1))))"

text \<open>
  The digit strings \<open>s\<close> of length \<open>k\<close> next to \<open>x\<close>, each with the position \<open>n\<close> of its
  decimal point, such that \<open>s \<times> 10\<^bsup>n-k\<^esup>\<close> rounds to \<open>x\<close>.
\<close>

definition digitCandidates :: "rat \<Rightarrow> int \<Rightarrow> nat \<Rightarrow> (int \<times> int) list" where
  "digitCandidates x n k =
     (let lo = \<lfloor>x / pow10 (n - int k)\<rfloor>;
          norm = (\<lambda>s. if s = 10 ^ k then (10 ^ (k - 1), n + 1) else (s, n))
      in filter (\<lambda>(s, m). 10 ^ (k - 1) \<le> s
                          \<and> round_double (of_int s * pow10 (m - int k)) = Fin x)
           (map norm [lo, lo + 1]))"

definition closestCandidate :: "rat \<Rightarrow> nat \<Rightarrow> (int \<times> int) list \<Rightarrow> int \<times> int" where
  "closestCandidate x k cs =
     (case cs of
        [c] \<Rightarrow> c
      | [(s, m), (s', m')] \<Rightarrow>
          (let d = \<bar>of_int s * pow10 (m - int k) - x\<bar>;
               d' = \<bar>of_int s' * pow10 (m' - int k) - x\<bar>
           in if d < d' \<or> (d = d' \<and> even s) then (s, m) else (s', m'))
      | _ \<Rightarrow> (0, 0))"

text \<open>The digits \<open>s\<close>, the position \<open>n\<close> and the least number \<open>k\<close> of digits; 17 always suffice.\<close>

definition shortestDigits :: "rat \<Rightarrow> int \<times> int \<times> nat" where
  "shortestDigits x =
     (let n = ilog10 x + 1
      in case List.find (\<lambda>k. digitCandidates x n k \<noteq> []) [1..<18] of
           Some k \<Rightarrow> (let (s, m) = closestCandidate x k (digitCandidates x n k) in (s, m, k))
         | None \<Rightarrow> (round_half_even (x / pow10 (n - 17)), n, 17))"

definition positiveToString :: "rat \<Rightarrow> string" where
  "positiveToString x =
     (let (s, n, k) = shortestDigits x; ds = decimalDigits s
      in if int k \<le> n \<and> n \<le> 21 then ds @ replicate (nat (n - int k)) CHR ''0''
         else if 0 < n \<and> n \<le> 21 then take (nat n) ds @ ''.'' @ drop (nat n) ds
         else if - 6 < n \<and> n \<le> 0 then ''0.'' @ replicate (nat (- n)) CHR ''0'' @ ds
         else (if k = 1 then ds else hd ds # ''.'' @ tl ds)
              @ ''e'' @ (if n - 1 < 0 then ''-'' else ''+'') @ decimalDigits \<bar>n - 1\<bar>)"

definition exampleNumberToString :: "jsnum \<Rightarrow> string" where
  "exampleNumberToString x =
     (case x of
        NaN \<Rightarrow> ''NaN''
      | PosInf \<Rightarrow> ''Infinity''
      | NegInf \<Rightarrow> ''-Infinity''
      | Fin r \<Rightarrow>
          if r = 0 then ''0''
          else if r < 0 then ''-'' @ positiveToString (- r)
          else positiveToString r)"

text \<open>
  A browser and backend in which every call succeeds, except that the file named
  \<^verbatim>\<open>broken.png\<close> does not decode; every image decodes to 1600 by 1200 pixels.
\<close>

definition exampleEnv :: env where
  "exampleEnv =
     \<lparr>numberToString = exampleNumberToString,
      readAsDataURL = (\<lambda>f. Some (''data:'' @ file_type f @ '';base64,'' @ file_name f)),
      imageLoad = (\<lambda>src. if src = ''data:image/png;base64,broken.png'' then None
                          else Some (1600, 1200)),
      toDataURL = (\<lambda>c t q. if canvas_width c = 0 \<or> canvas_height c = 0 then ''data:,''
                            else ''data:'' @ t @ '';base64,/9j/4AAQ''),
      getAllProducts = Some [],
      createProduct = (\<lambda>d. True),
      updateProduct = (\<lambda>i d. True),
      deleteProduct = (\<lambda>i. True),
      confirm = (\<lambda>m. True)\<rparr>"

text \<open>The same with a backend that rejects every call.\<close>

definition offlineEnv :: env where
  "offlineEnv =
     exampleEnv\<lparr>getAllProducts := None, createProduct := (\<lambda>d. False),
       updateProduct := (\<lambda>i d. False), deleteProduct := (\<lambda>i. False)\<rparr>"

definition examplePayload :: image_payload where
  "examplePayload = \<lparr>data = Some ''QUJD'', contentType = ''image/jpeg'', alt = Str ''Shirt''\<rparr>"

definition exampleForm :: form_data where
  "exampleForm =
     \<lparr>f_name = Str ''Shirt'', f_description = Str ''Cotton shirt'', f_price = Str ''25'',
      f_category = Str ''men'', f_stock = Str ''5'', f_image = Some examplePayload\<rparr>"

definition exampleState :: admin_state where
  "exampleState = initialState\<lparr>loading := False, openDialog := True, formData := exampleForm\<rparr>"

definition exampleProduct :: product where
  "exampleProduct =
     \<lparr>p_id = ''p1'', p_name = Str ''Shirt'', p_description = Str ''Cotton shirt'',
      p_price = Num (Fin 25), p_category = Str ''men'', p_stock = Num (Fin 5),
      p_image = Some examplePayload\<rparr>"

definition pngFile :: jsfile where
  "pngFile = \<lparr>file_type = ''image/png'', file_size = 204800, file_name = ''shirt.png''\<rparr>"

definition brokenFile :: jsfile where
  "brokenFile = \<lparr>file_type = ''image/png'', file_size = 204800, file_name = ''broken.png''\<rparr>"

definition hugeFile :: jsfile where
  "hugeFile = \<lparr>file_type = ''image/png'', file_size = 5242881, file_name = ''poster.png''\<rparr>"

definition pdfFile :: jsfile where
  "pdfFile = \<lparr>file_type = ''application/pdf'', file_size = 1024, file_name = ''invoice.pdf''\<rparr>"

section \<open>Rounding to binary64\<close>

text \<open>
  \<open>ilog2\<close> is the binary exponent, so the significand that \<open>fl\<close> rounds has 53 bits.
  The sizing of the canvas needs that \<open>fl\<close> keeps the sign and that in the normal range
  its relative error is at most \<open>2\<^sup>-\<^sup>5\<^sup>3\<close>.
\<close>

lemma pow2_powi: "pow2 e = 2 powi e"
  by (simp add: pow2_def power_int_def field_simps)

lemma pow2_pos: "0 < pow2 e"
  by (simp add: pow2_def)

lemma pow2_diff: "pow2 (a - b) = pow2 a / pow2 b"
  by (simp add: pow2_powi power_int_diff)

lemma pow2_nat: "pow2 (int n) = 2 ^ n"
  by (simp add: pow2_def)

lemma ilog2_le:
  assumes "0 < x"
  shows "pow2 (ilog2 x) \<le> x"
proof (cases "1 \<le> x")
  case True
  define n where "n = \<lfloor>x\<rfloor>"
  have n: "0 < n" using True by (simp add: n_def)
  have b: "2 ^ nat (bitlen n - 1) \<le> n"
    using bitlen_bounds [OF n] by simp
  have "1 \<le> bitlen n"
    using n by (simp add: bitlen_alt_def)
  then have "pow2 (bitlen n - 1) = 2 ^ nat (bitlen n - 1)"
    by (simp add: pow2_def)
  also have "\<dots> = of_int (2 ^ nat (bitlen n - 1))"
    by simp
  also have "\<dots> \<le> of_int n"
    using b by (simp only: of_int_le_iff)
  also have "\<dots> \<le> x"
    by (simp add: n_def)
  finally show ?thesis
    using True by (simp add: ilog2_def n_def)
next
  case False
  define m where "m = \<lceil>1 / x\<rceil> - 1"
  have "1 < 1 / x"
    using False assms by (simp add: field_simps)
  then have m: "0 < m"
    by (simp add: m_def less_ceiling_iff)
  have k: "1 \<le> bitlen m"
    using m by (simp add: bitlen_alt_def)
  have "m < 2 ^ nat (bitlen m)"
    using bitlen_bounds [OF m] by simp
  then have "\<lceil>1 / x\<rceil> \<le> 2 ^ nat (bitlen m)"
    by (simp add: m_def)
  then have "(of_int \<lceil>1 / x\<rceil> :: rat) \<le> of_int (2 ^ nat (bitlen m))"
    by (simp only: of_int_le_iff)
  then have "of_int \<lceil>1 / x\<rceil> \<le> (2 :: rat) ^ nat (bitlen m)"
    by simp
  then have "1 / x \<le> 2 ^ nat (bitlen m)"
    using le_of_int_ceiling [of "1 / x"] by (rule order_trans [rotated])
  then have "1 / 2 ^ nat (bitlen m) \<le> x"
    using assms by (simp add: field_simps)
  moreover have "pow2 (- bitlen m) = 1 / 2 ^ nat (bitlen m)"
    using k by (simp add: pow2_def)
  ultimately show ?thesis
    using False by (simp add: ilog2_def m_def)
qed

lemma ilog2_less:
  assumes "0 < x"
  shows "x < pow2 (ilog2 x + 1)"
proof (cases "1 \<le> x")
  case True
  define n where "n = \<lfloor>x\<rfloor>"
  have n: "0 < n" using True by (simp add: n_def)
  have "n < 2 ^ nat (bitlen n)"
    using bitlen_bounds [OF n] by simp
  then have "n + 1 \<le> 2 ^ nat (bitlen n)"
    by simp
  then have "(of_int (n + 1) :: rat) \<le> of_int (2 ^ nat (bitlen n))"
    by (simp only: of_int_le_iff)
  moreover have "x < of_int (n + 1)"
    unfolding n_def by linarith
  ultimately have "x < 2 ^ nat (bitlen n)"
    by simp
  moreover have "0 \<le> bitlen n"
    by (rule bitlen_nonneg)
  ultimately show ?thesis
    using True by (simp add: ilog2_def n_def pow2_def)
next
  case False
  define m where "m = \<lceil>1 / x\<rceil> - 1"
  have "1 < 1 / x"
    using False assms by (simp add: field_simps)
  then have m: "0 < m"
    by (simp add: m_def less_ceiling_iff)
  have k: "1 \<le> bitlen m"
    using m by (simp add: bitlen_alt_def)
  have "2 ^ nat (bitlen m - 1) \<le> m"
    using bitlen_bounds [OF m] by simp
  then have "(of_int (2 ^ nat (bitlen m - 1)) :: rat) \<le> of_int m"
    by (simp only: of_int_le_iff)
  also have "of_int m < 1 / x"
    unfolding m_def by linarith
  finally have "2 ^ nat (bitlen m - 1) < 1 / x"
    by simp
  then have lt: "x * 2 ^ nat (bitlen m - 1) < 1"
    using assms by (simp add: field_simps)
  show ?thesis
  proof (cases "bitlen m = 1")
    case True
    then show ?thesis
      using False by (simp add: ilog2_def m_def [symmetric] pow2_def)
  next
    case False
    then have "1 < bitlen m" using k by simp
    then have "pow2 (- bitlen m + 1) = 1 / 2 ^ nat (bitlen m - 1)"
      by (simp add: pow2_def)
    moreover have "x < 1 / 2 ^ nat (bitlen m - 1)"
      using lt by (simp add: field_simps)
    ultimately show ?thesis
      using \<open>\<not> 1 \<le> x\<close> by (simp add: ilog2_def m_def [symmetric])
  qed
qed

lemma round_half_even_err: "\<bar>of_int (round_half_even y) - y\<bar> \<le> 1 / 2"
proof -
  define f where "f = \<lfloor>y\<rfloor>"
  define d where "d = y - of_int f"
  have d: "0 \<le> d" "d < 1"
    unfolding d_def f_def by linarith+
  have y: "y = of_int f + d"
    by (simp add: d_def)
  have r: "round_half_even y = f \<and> d \<le> 1 / 2 \<or> round_half_even y = f + 1 \<and> 1 / 2 \<le> d"
    unfolding round_half_even_def Let_def f_def [symmetric] d_def [symmetric]
    by auto
  then show ?thesis
    using d unfolding y by auto
qed

lemma round_half_even_nonneg: "0 \<le> y \<Longrightarrow> 0 \<le> round_half_even y"
  by (auto simp: round_half_even_def Let_def)

lemma fl_nonneg: "0 \<le> x \<Longrightarrow> 0 \<le> fl x"
  by (auto simp: fl_def Let_def pow2_pos less_imp_le round_half_even_nonneg)

lemma fl_rel_error:
  assumes "pow2 (- 1022) \<le> \<bar>x\<bar>"
  shows "\<bar>fl x - x\<bar> \<le> \<bar>x\<bar> / 2 ^ 53"
proof -
  define e where "e = max (ilog2 \<bar>x\<bar>) (- 1022)"
  define q where "q = pow2 (e - 52)"
  have x0: "x \<noteq> 0" "0 < \<bar>x\<bar>"
    using assms pow2_pos [of "- 1022"] by auto
  have q: "0 < q" by (simp add: q_def pow2_pos)
  have "pow2 e \<le> \<bar>x\<bar>"
    using ilog2_le [OF x0(2)] assms by (simp add: e_def max_def)
  moreover have "pow2 e = q * 2 ^ 52"
    using pow2_diff [of e 52] by (simp add: q_def pow2_def)
  ultimately have qx: "q * 2 ^ 52 \<le> \<bar>x\<bar>" by simp
  have flx: "fl x = of_int (round_half_even (x / q)) * q"
    using x0 by (simp add: fl_def Let_def e_def q_def)
  have "fl x - x = (of_int (round_half_even (x / q)) - x / q) * q"
    using q by (simp add: flx left_diff_distrib)
  then have "\<bar>fl x - x\<bar> = \<bar>of_int (round_half_even (x / q)) - x / q\<bar> * q"
    using q by (simp add: abs_mult)
  also have "\<dots> \<le> (1 / 2) * q"
    using round_half_even_err [of "x / q"] q by (intro mult_right_mono) auto
  also have "\<dots> \<le> \<bar>x\<bar> / 2 ^ 53"
    using qx by simp
  finally show ?thesis .
qed




text \<open>An integer below \<open>2\<^sup>5\<^sup>3\<close> is a binary64 value: rounding leaves it as it is.\<close>

lemma round_half_even_of_int: "round_half_even (of_int k) = k"
  by (simp add: round_half_even_def)

lemma fl_of_nat:
  assumes "n < 2 ^ 53"
  shows "fl (of_nat n) = of_nat n"
proof (cases "n = 0")
  case True
  then show ?thesis by (simp add: fl_def)
next
  case False
  define x :: rat where "x = of_nat n"
  define e where "e = ilog2 x"
  have x: "0 < x" "1 \<le> x"
    using False by (simp_all add: x_def)
  have e0: "0 \<le> e"
    using x(2) bitlen_bounds [of "\<lfloor>x\<rfloor>"] by (simp add: e_def ilog2_def bitlen_alt_def)
  have "pow2 e \<le> x"
    unfolding e_def by (rule ilog2_le [OF x(1)])
  also have "x < 2 ^ 53"
    using assms unfolding x_def by (metis of_nat_less_iff of_nat_numeral of_nat_power)
  finally have "(2 :: rat) ^ nat e < 2 ^ 53"
    using e0 by (simp add: pow2_def)
  then have "nat e < 53"
    by (rule power_less_imp_less_exp [rotated]) simp
  then have e52: "e \<le> 52"
    by simp
  have mx: "max e (- 1022) = e"
    using e0 by simp
  have "x / pow2 (e - 52) = x * 2 ^ nat (52 - e)"
  proof (cases "e = 52")
    case True
    then show ?thesis by (simp add: pow2_def)
  next
    case False
    then have "e - 52 < 0" using e52 by simp
    then show ?thesis
      by (simp add: pow2_def)
  qed
  also have "\<dots> = of_int (int n * 2 ^ nat (52 - e))"
    by (simp add: x_def)
  finally have "round_half_even (x / pow2 (e - 52)) = int n * 2 ^ nat (52 - e)"
    by (simp only: round_half_even_of_int)
  moreover have "(2 :: rat) ^ nat (52 - e) * pow2 (e - 52) = 1"
  proof (cases "e = 52")
    case True
    then show ?thesis by (simp add: pow2_def)
  next
    case False
    then have "e - 52 < 0" using e52 by simp
    then show ?thesis
      by (simp add: pow2_def)
  qed
  ultimately have "of_int (round_half_even (x / pow2 (e - 52))) * pow2 (e - 52) = x"
    by (simp add: x_def mult.assoc)
  moreover have "fl x = of_int (round_half_even (x / pow2 (e - 52))) * pow2 (e - 52)"
    using x(1) mx unfolding e_def by (simp add: fl_def Let_def)
  ultimately show ?thesis
    by (simp add: x_def)
qed

text \<open>
  The assignment \<^verbatim>\<open>a *= 800 / b\<close> for integers \<open>a \<le> b\<close> with \<open>800 < b < 2\<^sup>3\<^sup>2\<close>: two roundings
  keep the result within \<open>2400 / 2\<^sup>5\<^sup>3\<close> of the exact quotient \<open>800 a / b\<close>, which is less than
  the distance \<open>1 / b\<close> between two multiples of \<open>1 / b\<close>.
\<close>

lemma scale_close:
  fixes a b :: nat
  assumes b: "800 < b" "b < 2 ^ 32" and a: "a \<le> b"
  shows "0 \<le> fl (of_nat a * fl (800 / of_nat b))"
    and "\<bar>fl (of_nat a * fl (800 / of_nat b)) - 800 * of_nat a / of_nat b\<bar> \<le> 2400 / 2 ^ 53"
proof -
  define A :: rat where "A = of_nat a"
  define B :: rat where "B = of_nat b"
  define x where "x = 800 / B"
  define q where "q = fl x"
  define y where "y = A * q"
  define E where "E = A * x"
  have "(of_nat 800 :: rat) < of_nat b" "(of_nat b :: rat) < of_nat (2 ^ 32)"
    using b by (simp_all only: of_nat_less_iff)
  then have B: "800 < B" "B < 2 ^ 32"
    by (simp_all add: B_def)
  have A: "0 \<le> A" "A \<le> B"
    using a unfolding A_def B_def by simp_all
  have x: "0 < x" "x \<le> 1"
    using B by (simp_all add: x_def)
  have "pow2 (- 1022) \<le> 800 / 2 ^ 32"
    by (simp add: pow2_def)
  also have "\<dots> \<le> x"
    using B by (simp add: x_def field_simps)
  finally have xr: "pow2 (- 1022) \<le> \<bar>x\<bar>" "800 / 2 ^ 32 \<le> x"
    using x \<open>800 / 2 ^ 32 \<le> x\<close> by simp_all
  have qx: "\<bar>q - x\<bar> \<le> x / 2 ^ 53"
    using fl_rel_error [OF xr(1)] x by (simp add: q_def)
  have q0: "0 \<le> q"
    unfolding q_def using x by (intro fl_nonneg) simp
  have E: "0 \<le> E" "E \<le> 800"
  proof -
    show "0 \<le> E" using A x by (simp add: E_def)
    have "E = 800 * (A / B)" by (simp add: E_def x_def)
    also have "A / B \<le> 1" using A B by simp
    finally show "E \<le> 800" by simp
  qed
  have "\<bar>y - E\<bar> = A * \<bar>q - x\<bar>"
    using A by (simp add: y_def E_def right_diff_distrib [symmetric] abs_mult)
  also have "\<dots> \<le> A * (x / 2 ^ 53)"
    using qx A by (intro mult_left_mono) auto
  finally have yE: "\<bar>y - E\<bar> \<le> E / 2 ^ 53"
    by (simp add: E_def)
  have y0: "0 \<le> y"
    using A q0 by (simp add: y_def)
  have Py: "\<bar>fl y - y\<bar> \<le> y / 2 ^ 53"
  proof (cases "a = 0")
    case True
    then show ?thesis by (simp add: y_def A_def fl_def)
  next
    case False
    then have "1 \<le> A" by (simp add: A_def)
    have "x / 2 ^ 53 \<le> x / 2"
      using x by simp
    then have "x / 2 \<le> q"
      using qx by linarith
    then have "x / 2 \<le> 1 * q" by simp
    also have "\<dots> \<le> A * q"
      using \<open>1 \<le> A\<close> q0 by (intro mult_right_mono) auto
    finally have "x / 2 \<le> y" by (simp add: y_def)
    moreover have "pow2 (- 1022) \<le> (800 / 2 ^ 32) / 2"
      by (simp add: pow2_def)
    ultimately have "pow2 (- 1022) \<le> \<bar>y\<bar>"
      using xr(2) by simp
    from fl_rel_error [OF this] y0 show ?thesis by simp
  qed
  show "0 \<le> fl (of_nat a * fl (800 / of_nat b))"
    using y0 fl_nonneg [of y]
    by (simp add: y_def q_def x_def A_def B_def)
  have "E / 2 ^ 53 \<le> 800 / 2 ^ 53"
    using E by simp
  then have yE': "\<bar>y - E\<bar> \<le> 800 / 2 ^ 53"
    using yE by linarith
  moreover have "(800 :: rat) / 2 ^ 53 \<le> 800"
    by simp
  ultimately have "y \<le> 1600"
    using E by linarith
  then have "y / 2 ^ 53 \<le> 1600 / 2 ^ 53"
    by simp
  then have "\<bar>fl y - y\<bar> \<le> 1600 / 2 ^ 53"
    using Py by linarith
  then have "\<bar>fl y - E\<bar> \<le> 2400 / 2 ^ 53"
    using yE' by linarith
  moreover have "E = 800 * of_nat a / of_nat b"
    by (simp add: E_def x_def A_def B_def)
  ultimately show "\<bar>fl (of_nat a * fl (800 / of_nat b)) - 800 * of_nat a / of_nat b\<bar> \<le> 2400 / 2 ^ 53"
    by (simp add: y_def q_def x_def A_def B_def)
qed

lemma scale_floor:
  fixes a b :: nat
  assumes b: "800 < b" "b < 2 ^ 32" and a: "a \<le> b"
  defines "p \<equiv> \<lfloor>fl (of_nat a * fl (800 / of_nat b))\<rfloor>"
  shows "0 \<le> p" and "p * int b \<le> 800 * int a" and "800 * int a \<le> p * int b + int b"
    and "p \<le> 800"
proof -
  define P where "P = fl (of_nat a * fl (800 / of_nat b))"
  define B :: rat where "B = of_nat b"
  define N :: rat where "N = 800 * of_nat a"
  have "(of_nat 0 :: rat) < of_nat b" "(of_nat b :: rat) < of_nat (2 ^ 32)"
    using b by (simp_all only: of_nat_less_iff)
  then have B: "0 < B" "B < 2 ^ 32"
    by (simp_all add: B_def)
  have P0: "0 \<le> P" and PE: "\<bar>P - N / B\<bar> \<le> 2400 / 2 ^ 53"
    using scale_close [OF b a] by (simp_all add: P_def B_def N_def)
  show "0 \<le> p"
    using P0 by (simp add: p_def P_def)
  have pP: "of_int p \<le> P" "P < of_int p + 1"
    unfolding p_def P_def by linarith+
  have d: "(2400 / 2 ^ 53) * B < 1"
    using B by simp
  have "P * B - N = (P - N / B) * B"
    using B by (simp add: field_simps)
  then have "\<bar>P * B - N\<bar> = \<bar>P - N / B\<bar> * B"
    using B by (simp add: abs_mult)
  also have "\<dots> \<le> (2400 / 2 ^ 53) * B"
    using PE B by (intro mult_right_mono) auto
  finally have PB: "\<bar>P * B - N\<bar> < 1"
    using d by simp
  have "of_int p * B \<le> P * B"
    using pP(1) B by (intro mult_right_mono) auto
  then have "of_int p * B < N + 1"
    using PB by (simp add: abs_less_iff)
  then have "(of_int (p * int b) :: rat) < of_int (800 * int a + 1)"
    by (simp add: B_def N_def)
  then have "p * int b < 800 * int a + 1"
    by (simp only: of_int_less_iff)
  then show le: "p * int b \<le> 800 * int a"
    by simp
  have "P * B < (of_int p + 1) * B"
    using pP(2) B by (intro mult_strict_right_mono) auto
  then have "N < of_int p * B + B + 1"
    using PB by (simp add: abs_less_iff algebra_simps)
  then have "(of_int (800 * int a) :: rat) < of_int (p * int b + int b + 1)"
    by (simp add: B_def N_def)
  then have "800 * int a < p * int b + int b + 1"
    by (simp only: of_int_less_iff)
  then show "800 * int a \<le> p * int b + int b"
    by simp
  have "p * int b \<le> 800 * int b"
    using le a by simp
  then show "p \<le> 800"
    using b by simp
qed


section \<open>The size of the canvas\<close>

lemma unat_toUnsignedLong:
  assumes "0 \<le> x" "\<lfloor>x\<rfloor> < 2 ^ 32"
  shows "int (unat (toUnsignedLong x)) = \<lfloor>x\<rfloor>"
proof -
  have "0 \<le> \<lfloor>x\<rfloor>" using assms(1) by simp
  then show ?thesis
    using assms by (simp add: toUnsignedLong_def unsigned_of_int take_bit_int_eq_self)
qed

lemma toUnsignedLong_of_unat: "toUnsignedLong (of_nat (unat w)) = w"
proof -
  define n where "n = unat w"
  have "toUnsignedLong (of_nat n) = word_of_int (int n)"
    by (simp add: toUnsignedLong_def)
  also have "\<dots> = w"
    by (simp add: n_def)
  finally show ?thesis
    by (simp only: n_def)
qed

lemma scaled_side:
  fixes a b :: "32 word"
  assumes "800 < unat b" "unat a \<le> unat b"
  defines "p \<equiv> int (unat (toUnsignedLong (fl (of_nat (unat a) * fl (800 / of_nat (unat b))))))"
  shows "p \<le> 800" and "p * int (unat b) \<le> 800 * int (unat a)"
    and "800 * int (unat a) \<le> p * int (unat b) + int (unat b)"
proof -
  have b: "unat b < 2 ^ 32"
    using unsigned_less [of b] by simp
  note f = scale_floor [OF assms(1) b assms(2)]
  have "0 \<le> fl (of_nat (unat a) * fl (800 / of_nat (unat b)))"
    using scale_close(1) [OF assms(1) b assms(2)] .
  then have p: "p = \<lfloor>fl (of_nat (unat a) * fl (800 / of_nat (unat b)))\<rfloor>"
    unfolding p_def using f(4) by (intro unat_toUnsignedLong) auto
  show "p \<le> 800" "p * int (unat b) \<le> 800 * int (unat a)"
    "800 * int (unat a) \<le> p * int (unat b) + int (unat b)"
    using f unfolding p by auto
qed

lemma unat_toUnsignedLong_800: "unat (toUnsignedLong 800) = 800"
  by (simp add: toUnsignedLong_def)

lemma targetSize_landscape:
  assumes "unat h < unat w" "800 < unat w"
  shows "targetSize w h = (800, fl (of_nat (unat h) * fl (800 / of_nat (unat w))))"
proof -
  have "(of_nat (unat h) :: rat) < of_nat (unat w)" "(of_nat 800 :: rat) < of_nat (unat w)"
    using assms by (simp_all only: of_nat_less_iff)
  then show ?thesis
    by (simp add: targetSize_def Let_def MAX_WIDTH_def)
qed

lemma targetSize_portrait:
  assumes "unat w \<le> unat h" "800 < unat h"
  shows "targetSize w h = (fl (of_nat (unat w) * fl (800 / of_nat (unat h))), 800)"
proof -
  have "\<not> (of_nat (unat h) :: rat) < of_nat (unat w)" "(of_nat 800 :: rat) < of_nat (unat h)"
    using assms by (simp_all only: of_nat_less_iff not_less of_nat_le_iff)
  then show ?thesis
    by (simp add: targetSize_def Let_def MAX_HEIGHT_def)
qed

lemma targetSize_small:
  assumes "unat w \<le> 800" "unat h \<le> 800"
  shows "targetSize w h = (of_nat (unat w), of_nat (unat h))"
proof -
  have "\<not> (of_nat 800 :: rat) < of_nat (unat w)" "\<not> (of_nat 800 :: rat) < of_nat (unat h)"
    using assms by (simp_all only: of_nat_less_iff not_less of_nat_le_iff)
  then show ?thesis
    by (simp add: targetSize_def Let_def MAX_WIDTH_def MAX_HEIGHT_def)
qed

lemma canvas_landscape:
  assumes "unat h < unat w" "800 < unat w"
  shows "canvas_width (optimizeCanvas src w h) = 800"
    and "int (unat (canvas_height (optimizeCanvas src w h))) \<le> 800"
    and "int (unat (canvas_height (optimizeCanvas src w h))) * int (unat w) \<le> 800 * int (unat h)"
    and "800 * int (unat h)
         \<le> int (unat (canvas_height (optimizeCanvas src w h))) * int (unat w) + int (unat w)"
proof -
  have c: "optimizeCanvas src w h =
      \<lparr>canvas_width = toUnsignedLong 800,
       canvas_height = toUnsignedLong (fl (of_nat (unat h) * fl (800 / of_nat (unat w)))),
       drawn = [(src, 0, 0, 800, fl (of_nat (unat h) * fl (800 / of_nat (unat w))))]\<rparr>"
    by (simp add: optimizeCanvas_def targetSize_landscape [OF assms])
  have le: "unat h \<le> unat w" using assms(1) by simp
  show "canvas_width (optimizeCanvas src w h) = 800"
    by (simp add: c toUnsignedLong_def)
  show "int (unat (canvas_height (optimizeCanvas src w h))) \<le> 800"
    "int (unat (canvas_height (optimizeCanvas src w h))) * int (unat w) \<le> 800 * int (unat h)"
    "800 * int (unat h)
         \<le> int (unat (canvas_height (optimizeCanvas src w h))) * int (unat w) + int (unat w)"
    using scaled_side [OF assms(2) le] by (simp_all add: c)
qed

lemma canvas_portrait:
  assumes "unat w \<le> unat h" "800 < unat h"
  shows "canvas_height (optimizeCanvas src w h) = 800"
    and "int (unat (canvas_width (optimizeCanvas src w h))) \<le> 800"
    and "int (unat (canvas_width (optimizeCanvas src w h))) * int (unat h) \<le> 800 * int (unat w)"
    and "800 * int (unat w)
         \<le> int (unat (canvas_width (optimizeCanvas src w h))) * int (unat h) + int (unat h)"
proof -
  have c: "optimizeCanvas src w h =
      \<lparr>canvas_width = toUnsignedLong (fl (of_nat (unat w) * fl (800 / of_nat (unat h)))),
       canvas_height = toUnsignedLong 800,
       drawn = [(src, 0, 0, fl (of_nat (unat w) * fl (800 / of_nat (unat h))), 800)]\<rparr>"
    by (simp add: optimizeCanvas_def targetSize_portrait [OF assms])
  show "canvas_height (optimizeCanvas src w h) = 800"
    by (simp add: c toUnsignedLong_def)
  show "int (unat (canvas_width (optimizeCanvas src w h))) \<le> 800"
    "int (unat (canvas_width (optimizeCanvas src w h))) * int (unat h) \<le> 800 * int (unat w)"
    "800 * int (unat w)
         \<le> int (unat (canvas_width (optimizeCanvas src w h))) * int (unat h) + int (unat h)"
    using scaled_side [OF assms(2) assms(1)] by (simp_all add: c)
qed

lemma toUnsignedLong_unsigned: "toUnsignedLong (unsigned w) = w"
  using toUnsignedLong_of_unat [of w] by simp

lemma canvas_small:
  assumes "unat w \<le> 800" "unat h \<le> 800"
  shows "canvas_width (optimizeCanvas src w h) = w" "canvas_height (optimizeCanvas src w h) = h"
  by (simp_all add: optimizeCanvas_def targetSize_small [OF assms] toUnsignedLong_unsigned)


lemma within_one_pixel:
  fixes c a b :: int
  assumes "c * b \<le> 800 * a" "800 * a \<le> c * b + b" "0 \<le> a" "a \<le> b"
  shows "\<bar>800 * a - c * b\<bar> \<le> max b a" "\<bar>c * b - 800 * a\<bar> \<le> max a b"
  using assms by auto

text \<open>
  C1. For every decoded image, hence for every file that \<^verbatim>\<open>optimizeImage\<close> accepts, the
  canvas it renders is at most 800 wide and at most 800 high, its longer side is the
  longer side of the image cut down to 800, and it keeps the ratio of width to height
  up to rounding: cross-multiplied, the input and output dimensions differ by at most
  the longer input side, which says that the scaled side is within one pixel of its
  exact proportional value.
\<close>

theorem optimizeCanvas_bounded_and_proportional:
  "unat (canvas_width (optimizeCanvas src w h)) \<le> 800
   \<and> unat (canvas_height (optimizeCanvas src w h)) \<le> 800
   \<and> max (unat (canvas_width (optimizeCanvas src w h)))
         (unat (canvas_height (optimizeCanvas src w h)))
       = min (max (unat w) (unat h)) 800
   \<and> \<bar>int (unat (canvas_width (optimizeCanvas src w h))) * int (unat h)
        - int (unat (canvas_height (optimizeCanvas src w h))) * int (unat w)\<bar>
       \<le> max (int (unat w)) (int (unat h))"
proof -
  define cw where "cw = int (unat (canvas_width (optimizeCanvas src w h)))"
  define ch where "ch = int (unat (canvas_height (optimizeCanvas src w h)))"
  define iw where "iw = int (unat w)"
  define ih where "ih = int (unat h)"
  have goal: "cw \<le> 800 \<and> ch \<le> 800 \<and> max cw ch = min (max iw ih) 800
      \<and> \<bar>cw * ih - ch * iw\<bar> \<le> max iw ih"
  proof -
    consider (landscape) "unat h < unat w" "800 < unat w"
      | (portrait) "unat w \<le> unat h" "800 < unat h"
      | (small) "unat w \<le> 800" "unat h \<le> 800"
      by linarith
    then show ?thesis
    proof cases
      case landscape
      note l = canvas_landscape [OF landscape, of src, folded ch_def iw_def ih_def]
      have cw: "cw = 800"
        by (simp add: cw_def l(1))
      have "0 \<le> ih" "ih \<le> iw" "800 < iw"
        using landscape unfolding ih_def iw_def by linarith+
      then show ?thesis
        using l(2) within_one_pixel(1) [OF l(3,4)] by (simp add: cw)
    next
      case portrait
      note p = canvas_portrait [OF portrait, of src, folded cw_def iw_def ih_def]
      have ch: "ch = 800"
        by (simp add: ch_def p(1))
      have "0 \<le> iw" "iw \<le> ih" "800 < ih"
        using portrait unfolding ih_def iw_def by linarith+
      then show ?thesis
        using p(2) within_one_pixel(2) [OF p(3,4)] by (simp add: ch)
    next
      case small
      have "cw = iw" "ch = ih"
        by (simp_all only: cw_def ch_def iw_def ih_def canvas_small [OF small])
      moreover have "iw \<le> 800" "ih \<le> 800" "0 \<le> iw"
        using small unfolding iw_def ih_def by linarith+
      ultimately show ?thesis
        by (simp add: mult.commute)
    qed
  qed
  have "unat (canvas_width (optimizeCanvas src w h)) \<le> 800"
    using goal unfolding cw_def by linarith
  moreover have "unat (canvas_height (optimizeCanvas src w h)) \<le> 800"
    using goal unfolding ch_def by linarith
  moreover have "max (unat (canvas_width (optimizeCanvas src w h)))
         (unat (canvas_height (optimizeCanvas src w h)))
       = min (max (unat w) (unat h)) 800"
  proof -
    have "max cw ch = min (max iw ih) 800"
      using goal by blast
    then have "int (max (unat (canvas_width (optimizeCanvas src w h)))
         (unat (canvas_height (optimizeCanvas src w h))))
       = int (min (max (unat w) (unat h)) 800)"
      unfolding cw_def ch_def iw_def ih_def by (simp only: of_nat_max of_nat_min of_nat_numeral)
    then show ?thesis
      by (simp only: of_nat_eq_iff)
  qed
  ultimately show ?thesis
    using goal unfolding cw_def ch_def iw_def ih_def by blast
qed

subsection \<open>Particular sizes\<close>

lemma fl_half: "fl (1 / 2) = 1 / 2"
  by code_simp

lemma fl_600: "fl 600 = 600"
  by code_simp

lemma targetSize_1600_1200: "targetSize 1600 1200 = (800, 600)"
  by (simp add: targetSize_def MAX_WIDTH_def MAX_HEIGHT_def fl_half fl_600)

lemma targetSize_1200_1600: "targetSize 1200 1600 = (600, 800)"
  by (simp add: targetSize_def MAX_WIDTH_def MAX_HEIGHT_def fl_half fl_600)

lemma fl_1078: "fl (1078 * fl (800 / 1078)) = 7036874417766399 / 8796093022208"
  by code_simp

lemma targetSize_1078: "targetSize 1078 1078 = (7036874417766399 / 8796093022208, 800)"
  using fl_1078 by (simp add: targetSize_def MAX_WIDTH_def MAX_HEIGHT_def)

lemma floor_1078: "\<lfloor>7036874417766399 / 8796093022208 :: rat\<rfloor> = 799"
  by (simp add: floor_eq_iff)

lemma canvas_1078: "canvas_width (optimizeCanvas src 1078 1078) = 799" "canvas_height (optimizeCanvas src 1078 1078) = 800"
  by (simp_all add: optimizeCanvas_def targetSize_1078 toUnsignedLong_def floor_1078)

lemma canvas_1600_1200: "optimizeCanvas src 1600 1200 = \<lparr>canvas_width = 800, canvas_height = 600, drawn = [(src, 0, 0, 800, 600)]\<rparr>"
  by (simp add: optimizeCanvas_def targetSize_1600_1200 toUnsignedLong_def)

text \<open>
  The rule of C2 as the specification words it, with the first branch taken when the
  width is at least the height, fails on a square: a 1078 by 1078 image takes the
  second branch of line 84, where \<^verbatim>\<open>width *= 800 / height\<close> rounds to a value just below
  800, and the canvas is 799 wide.
\<close>

theorem targetSize_square_counterexample:
  "\<not> (unat (1078 :: 32 word) \<ge> unat (1078 :: 32 word) \<longrightarrow>
      unat (canvas_width (optimizeCanvas ''data:image/png;base64,iVBORw0KGgo='' 1078 1078))
      = min (unat (1078 :: 32 word)) 800)"
  by (simp add: canvas_1078)

lemma canvas_1200_1600:
  "optimizeCanvas src 1200 1600
   = \<lparr>canvas_width = 600, canvas_height = 800, drawn = [(src, 0, 0, 600, 800)]\<rparr>"
  by (simp add: optimizeCanvas_def targetSize_1200_1600 toUnsignedLong_def)

text \<open>
  C2, amended. When the decoded width is greater than the height, the canvas width is
  \<open>min width 800\<close> and the height is scaled in proportion: never above the exact
  proportional value and at most one pixel below it. Otherwise, squares included, the
  canvas height is \<open>min height 800\<close> and the width is scaled in the same way. An image
  within 800 by 800 keeps its dimensions, 1600 by 1200 gives 800 by 600 and 1200 by
  1600 gives 600 by 800.
\<close>

theorem optimizeCanvas_rule:
  "(unat h < unat w \<longrightarrow>
      unat (canvas_width (optimizeCanvas src w h)) = min (unat w) 800
      \<and> int (unat (canvas_height (optimizeCanvas src w h))) * int (unat w)
          \<le> int (unat (canvas_width (optimizeCanvas src w h))) * int (unat h)
      \<and> int (unat (canvas_width (optimizeCanvas src w h))) * int (unat h)
          \<le> int (unat (canvas_height (optimizeCanvas src w h))) * int (unat w) + int (unat w))
   \<and> (unat w \<le> unat h \<longrightarrow>
      unat (canvas_height (optimizeCanvas src w h)) = min (unat h) 800
      \<and> int (unat (canvas_width (optimizeCanvas src w h))) * int (unat h)
          \<le> int (unat (canvas_height (optimizeCanvas src w h))) * int (unat w)
      \<and> int (unat (canvas_height (optimizeCanvas src w h))) * int (unat w)
          \<le> int (unat (canvas_width (optimizeCanvas src w h))) * int (unat h) + int (unat h))
   \<and> (unat w \<le> 800 \<and> unat h \<le> 800 \<longrightarrow>
      canvas_width (optimizeCanvas src w h) = w \<and> canvas_height (optimizeCanvas src w h) = h)
   \<and> (canvas_width (optimizeCanvas src 1600 1200), canvas_height (optimizeCanvas src 1600 1200))
      = (800, 600)
   \<and> (canvas_width (optimizeCanvas src 1200 1600), canvas_height (optimizeCanvas src 1200 1600))
      = (600, 800)"
proof -
  define cw where "cw = int (unat (canvas_width (optimizeCanvas src w h)))"
  define ch where "ch = int (unat (canvas_height (optimizeCanvas src w h)))"
  define iw where "iw = int (unat w)"
  define ih where "ih = int (unat h)"
  have landscape: "unat (canvas_width (optimizeCanvas src w h)) = min (unat w) 800
      \<and> ch * iw \<le> cw * ih \<and> cw * ih \<le> ch * iw + iw" if lt: "unat h < unat w"
  proof (cases "800 < unat w")
    case True
    note l = canvas_landscape [OF lt True, of src, folded ch_def iw_def ih_def]
    have "unat (canvas_width (optimizeCanvas src w h)) = 800"
      by (simp add: l(1))
    moreover from this have "cw = 800"
      by (simp only: cw_def)
    ultimately show ?thesis
      using True l(3,4) by simp
  next
    case False
    then have small: "unat w \<le> 800" "unat h \<le> 800"
      using lt by simp_all
    have "cw = iw" "ch = ih"
      by (simp_all only: cw_def ch_def iw_def ih_def canvas_small [OF small])
    moreover have "0 \<le> iw"
      by (simp add: iw_def)
    ultimately show ?thesis
      using small by (simp add: canvas_small [OF small] mult.commute)
  qed
  have portrait: "unat (canvas_height (optimizeCanvas src w h)) = min (unat h) 800
      \<and> cw * ih \<le> ch * iw \<and> ch * iw \<le> cw * ih + ih" if le: "unat w \<le> unat h"
  proof (cases "800 < unat h")
    case True
    note p = canvas_portrait [OF le True, of src, folded cw_def iw_def ih_def]
    have "unat (canvas_height (optimizeCanvas src w h)) = 800"
      by (simp add: p(1))
    moreover from this have "ch = 800"
      by (simp only: ch_def)
    ultimately show ?thesis
      using True p(3,4) by simp
  next
    case False
    then have small: "unat w \<le> 800" "unat h \<le> 800"
      using le by simp_all
    have "cw = iw" "ch = ih"
      by (simp_all only: cw_def ch_def iw_def ih_def canvas_small [OF small])
    moreover have "0 \<le> ih"
      by (simp add: ih_def)
    ultimately show ?thesis
      using small by (simp add: canvas_small [OF small] mult.commute)
  qed
  have small: "canvas_width (optimizeCanvas src w h) = w \<and> canvas_height (optimizeCanvas src w h) = h"
    if "unat w \<le> 800 \<and> unat h \<le> 800"
    using that canvas_small [of w h src] by simp
  have ex: "(canvas_width (optimizeCanvas src 1600 1200), canvas_height (optimizeCanvas src 1600 1200))
      = (800, 600)"
    "(canvas_width (optimizeCanvas src 1200 1600), canvas_height (optimizeCanvas src 1200 1600))
      = (600, 800)"
    by (simp_all add: canvas_1600_1200 canvas_1200_1600)
  show ?thesis
    using landscape portrait small ex
    unfolding cw_def ch_def iw_def ih_def by blast
qed

theorem optimizeCanvas_rule_witness:
  "unat (1200 :: 32 word) < unat (1600 :: 32 word)
   \<and> unat (canvas_width (optimizeCanvas [] 1600 1200)) = min (unat (1600 :: 32 word)) 800
   \<and> unat (1078 :: 32 word) \<le> unat (1078 :: 32 word)
   \<and> unat (canvas_height (optimizeCanvas [] 1078 1078)) = min (unat (1078 :: 32 word)) 800
   \<and> unat (640 :: 32 word) \<le> 800 \<and> unat (480 :: 32 word) \<le> 800
   \<and> canvas_width (optimizeCanvas [] 640 480) = 640
   \<and> canvas_height (optimizeCanvas [] 640 480) = 480"
  using optimizeCanvas_rule [where w = 1600 and h = 1200 and src = "[]"]
    optimizeCanvas_rule [where w = 1078 and h = 1078 and src = "[]"]
    optimizeCanvas_rule [where w = 640 and h = 480 and src = "[]"]
  by simp

section \<open>The handlers\<close>

lemma handleSubmit_cases:
  "handleSubmit e s =
     (if \<not> requiredFilled (formData s)
      then ([], s\<lparr>error := Some ''Please fill in all required fields''\<rparr>)
      else case f_image (formData s) of
             None \<Rightarrow> ([], s\<lparr>error := Some ''Please select an image''\<rparr>)
           | Some img \<Rightarrow>
               if \<not> truthyData (data img) then ([], s\<lparr>error := Some ''Please select an image''\<rparr>)
               else validateAndSave e s img)"
  by (simp add: handleSubmit_def requiredFilled_def Let_def)

lemma or_zero_bad_price:
  "isNaN x \<or> js_le x (Fin 0) \<Longrightarrow> js_le (or_zero x) (Fin 0)"
  by (cases x) (auto simp: or_zero_def num_truthy_def js_le_def isNaN_def)

lemma or_zero_negative:
  "js_lt x (Fin 0) \<Longrightarrow> or_zero x = x"
  by (cases x) (auto simp: or_zero_def num_truthy_def)

lemma or_zero_not_NaN: "\<not> isNaN (or_zero x)"
  by (cases x) (auto simp: or_zero_def num_truthy_def isNaN_def)

lemma validateAndSave_bad_price:
  assumes "isNaN (parseFloat e (f_price (formData s))) \<or> js_le (parseFloat e (f_price (formData s))) (Fin 0)"
  shows "validateAndSave e s img = ([], s\<lparr>error := Some ''Please enter a valid price''\<rparr>)"
  using or_zero_bad_price [OF assms]
  by (simp add: validateAndSave_def dataToSend_def Let_def)

lemma validateAndSave_negative_stock:
  assumes "\<not> (isNaN (parseFloat e (f_price (formData s))) \<or> js_le (parseFloat e (f_price (formData s))) (Fin 0))"
    and "js_lt (parseInt e (f_stock (formData s))) (Fin 0)"
  shows "validateAndSave e s img = ([], s\<lparr>error := Some ''Please enter a valid stock quantity''\<rparr>)"
proof -
  have "or_zero (parseFloat e (f_price (formData s))) = parseFloat e (f_price (formData s))"
    using assms(1)
    by (cases "parseFloat e (f_price (formData s))")
      (auto simp: or_zero_def num_truthy_def js_le_def isNaN_def)
  then show ?thesis
    using assms by (simp add: validateAndSave_def dataToSend_def Let_def or_zero_negative)
qed

text \<open>The stock test of line 185 never sees \<^verbatim>\<open>NaN\<close>: line 171 has replaced it by 0.\<close>

lemma stock_never_NaN: "\<not> isNaN (d_stock (dataToSend e fd img))"
  by (simp add: dataToSend_def or_zero_not_NaN)

lemma handleImageChange_wrong_type:
  "\<not> startsWith (file_type f) ''image/'' \<Longrightarrow>
   handleImageChange e s (Some f) = ([], s\<lparr>error := Some ''Please select an image file''\<rparr>)"
  by (simp add: handleImageChange_def)

lemma handleImageChange_too_large:
  "startsWith (file_type f) ''image/'' \<Longrightarrow> 5 * 1024 * 1024 < file_size f \<Longrightarrow>
   handleImageChange e s (Some f) = ([], s\<lparr>error := Some ''Image size should be less than 5MB''\<rparr>)"
  by (simp add: handleImageChange_def)

lemma handleImageChange_decode_failure:
  "startsWith (file_type f) ''image/'' \<Longrightarrow> file_size f \<le> 5 * 1024 * 1024 \<Longrightarrow>
   snd (optimizeImage e f) = Inl err \<Longrightarrow>
   handleImageChange e s (Some f)
   = (fst (optimizeImage e f) @ [ConsoleError ''Image processing error:''],
      s\<lparr>error := Some ''Error processing the image''\<rparr>)"
  by (cases "optimizeImage e f") (simp add: handleImageChange_def)

lemma handleImageChange_not_accepted:
  assumes "\<not> accepted e f"
  shows "\<exists>m. snd (handleImageChange e s (Some f)) = s\<lparr>error := Some m\<rparr>"
proof (cases "startsWith (file_type f) ''image/''")
  case False
  then show ?thesis
    by (simp add: handleImageChange_wrong_type) blast
next
  case t: True
  show ?thesis
  proof (cases "5 * 1024 * 1024 < file_size f")
    case True
    then show ?thesis
      using t by (simp add: handleImageChange_too_large) blast
  next
    case False
    then have sz: "file_size f \<le> 5 * 1024 * 1024"
      by simp
    with t assms obtain err where "snd (optimizeImage e f) = Inl err"
      by (auto simp: accepted_def split: sum.splits)
    then show ?thesis
      using handleImageChange_decode_failure [OF t sz] by simp blast
  qed
qed

lemma handleInputChange_image [simp]:
  "f_image (formData (handleInputChange s n v)) = f_image (formData s)"
  by (cases n) (simp_all add: handleInputChange_def)

lemma handleInputChange_editing [simp]:
  "editingProduct (handleInputChange s n v) = editingProduct s"
  by (simp add: handleInputChange_def)

lemma formEvent_keeps_image:
  assumes "noNewImage e ev"
  shows "f_image (formData (formEvent e s ev)) = f_image (formData s)"
proof (cases ev)
  case (InputChange n v)
  then show ?thesis by simp
next
  case (ImageChange fo)
  show ?thesis
  proof (cases fo)
    case None
    then show ?thesis
      using ImageChange by (simp add: handleImageChange_def)
  next
    case (Some f)
    then have "\<not> accepted e f"
      using assms ImageChange by simp
    from handleImageChange_not_accepted [OF this, of s] obtain m
      where "snd (handleImageChange e s (Some f)) = s\<lparr>error := Some m\<rparr>" ..
    then show ?thesis
      using ImageChange Some by simp
  qed
qed

lemma formEvents_keep_image:
  assumes "\<forall>ev \<in> set evs. noNewImage e ev"
  shows "f_image (formData (foldl (formEvent e) s evs)) = f_image (formData s)"
  using assms
proof (induction evs arbitrary: s)
  case Nil
  then show ?case by simp
next
  case (Cons ev evs)
  then show ?case
    by (simp add: formEvent_keeps_image)
qed

lemma handleSubmit_without_image:
  assumes "f_image (formData s) = None"
  shows "handleSubmit e s
         = ([], s\<lparr>error := Some (if requiredFilled (formData s) then ''Please select an image''
                                  else ''Please fill in all required fields'')\<rparr>)"
  using assms by (simp add: handleSubmit_cases)

lemma handleSubmit_ignores_error:
  "fst (handleSubmit e (s\<lparr>error := x\<rparr>)) = fst (handleSubmit e s)"
  by (simp add: handleSubmit_def validateAndSave_def afterSave_def fetchProducts_def Let_def
      split: option.split prod.split)

subsection \<open>The examples evaluated\<close>

lemma parseFloatStr_25: "parseFloatStr ''25'' = Fin 25"
  by code_simp

lemma parseFloatStr_abc: "parseFloatStr ''abc'' = NaN"
  by code_simp


lemma parseIntStr_5: "parseIntStr ''5'' = Fin 5"
  by code_simp

lemma parseIntStr_empty: "parseIntStr [] = NaN"
  by code_simp

lemma parseIntStr_minus3: "parseIntStr ''-3'' = Fin (- 3)"
  by code_simp


lemmas example_defs =
  exampleState_def exampleForm_def examplePayload_def exampleEnv_def offlineEnv_def
  initialState_def closedForm_def exampleProduct_def

lemmas submit_defs =
  handleSubmit_def validateAndSave_def dataToSend_def afterSave_def fetchProducts_def
  truthy_def truthyData_def parseFloat_def parseInt_def toString_def or_zero_def
  num_truthy_def isNaN_def js_le_def

subsection \<open>Submitting the form\<close>

lemma validateAndSave_save_fails:
  assumes "passesValidation e (formData s)"
  shows "editingProduct s = None \<Longrightarrow> \<not> createProduct e (dataToSend e (formData s) img) \<Longrightarrow>
           validateAndSave e s img
           = ([CreateProduct (dataToSend e (formData s) img), ConsoleError ''Error saving product:''],
              s\<lparr>error := Some ''Failed to save product''\<rparr>)"
    and "editingProduct s = Some p \<Longrightarrow> \<not> updateProduct e (p_id p) (dataToSend e (formData s) img) \<Longrightarrow>
           validateAndSave e s img
           = ([UpdateProduct (p_id p) (dataToSend e (formData s) img),
               ConsoleError ''Error saving product:''],
              s\<lparr>error := Some ''Failed to save product''\<rparr>)"
  using assms by (simp_all add: validateAndSave_def passesValidation_def dataToSend_def Let_def)

text \<open>
  C3. A submission whose stock field is empty is not rejected: with every other field
  valid, \<^verbatim>\<open>parseInt('', 10) || 0\<close> is 0, the test of line 185 passes, and the product is
  sent to the backend with stock 0.
\<close>

theorem handleSubmit_sends_empty_stock:
  "handleSubmit exampleEnv (exampleState\<lparr>formData := exampleForm\<lparr>f_stock := Str []\<rparr>\<rparr>)
   = ([CreateProduct
        \<lparr>d_name = Str ''Shirt'', d_description = Str ''Cotton shirt'', d_price = Fin 25,
         d_category = Str ''men'', d_stock = Fin 0,
         d_image = \<lparr>data = Some ''QUJD'', contentType = ''image/jpeg'', alt = Str ''Shirt''\<rparr>\<rparr>,
       GetAllProducts],
      initialState\<lparr>loading := False, formData := submittedForm\<rparr>)"
  by (simp add: submit_defs example_defs parseFloatStr_25 parseIntStr_empty)

theorem handleSubmit_sends_empty_stock_witness:
  "isNaN (parseInt exampleEnv (Str []))
   \<and> (\<exists>d. fst (handleSubmit exampleEnv
                     (exampleState\<lparr>formData := exampleForm\<lparr>f_stock := Str []\<rparr>\<rparr>))
            = [CreateProduct d, GetAllProducts]
          \<and> d_stock d = Fin 0)
   \<and> error (snd (handleSubmit exampleEnv
                   (exampleState\<lparr>formData := exampleForm\<lparr>f_stock := Str []\<rparr>\<rparr>)))
     = None"
  using handleSubmit_sends_empty_stock
  by (simp add: parseInt_def toString_def parseIntStr_empty isNaN_def initialState_def)




subsection \<open>Selecting a file\<close>

text \<open>
  C5. A selected file larger than 5,242,880 bytes is rejected: the handler sets an
  error message and performs no effect, so the file is neither read nor decoded, and
  the form data, with it the image payload, is left as it was.
\<close>

theorem handleImageChange_rejects_oversized:
  assumes "5242880 < file_size f"
  shows "\<exists>m \<in> {''Please select an image file'', ''Image size should be less than 5MB''}.
           handleImageChange e s (Some f) = ([], s\<lparr>error := Some m\<rparr>)"
  using assms by (simp add: handleImageChange_def)

theorem handleImageChange_rejects_oversized_witness:
  "5242880 < file_size hugeFile
   \<and> (\<exists>m \<in> {''Please select an image file'', ''Image size should be less than 5MB''}.
         handleImageChange exampleEnv exampleState (Some hugeFile)
         = ([], exampleState\<lparr>error := Some m\<rparr>))"
proof -
  have h: "5242880 < file_size hugeFile"
    by (simp add: hugeFile_def)
  from handleImageChange_rejects_oversized [OF h] h show ?thesis
    by simp
qed

text \<open>
  C6. A selected file whose declared type does not start with \<^verbatim>\<open>image/\<close> is rejected:
  the handler sets the message asking for an image file, performs no effect, and
  leaves the image of the form as it was.
\<close>

theorem handleImageChange_rejects_non_image:
  assumes "\<not> startsWith (file_type f) ''image/''"
  shows "handleImageChange e s (Some f) = ([], s\<lparr>error := Some ''Please select an image file''\<rparr>)
         \<and> f_image (formData (snd (handleImageChange e s (Some f)))) = f_image (formData s)"
  using assms by (simp add: handleImageChange_def)

theorem handleImageChange_rejects_non_image_witness:
  "\<not> startsWith (file_type pdfFile) ''image/''
   \<and> handleImageChange exampleEnv exampleState (Some pdfFile)
     = ([], exampleState\<lparr>error := Some ''Please select an image file''\<rparr>)
   \<and> f_image (formData (snd (handleImageChange exampleEnv exampleState (Some pdfFile))))
     = f_image (formData exampleState)"
proof -
  have h: "\<not> startsWith (file_type pdfFile) ''image/''"
    by (simp add: pdfFile_def startsWith_def)
  from handleImageChange_rejects_non_image [OF h] h show ?thesis
    by simp
qed





subsection \<open>Editing a product\<close>

text \<open>
  The claim C9 as stated promises the image-required message for every submission
  made after \<^verbatim>\<open>handleEdit\<close> without a new image. When the admin has cleared the name,
  the test of line 155 comes first and the message is the one about required fields.
\<close>

theorem edit_clear_name_counterexample:
  "f_image (formData (handleInputChange (handleEdit initialState exampleProduct) FName [])) = None
   \<and> error (snd (handleSubmit exampleEnv
                   (handleInputChange (handleEdit initialState exampleProduct) FName [])))
     = Some ''Please fill in all required fields''
   \<and> error (snd (handleSubmit exampleEnv
                   (handleInputChange (handleEdit initialState exampleProduct) FName [])))
     \<noteq> Some ''Please select an image''"
  by (simp add: handleSubmit_without_image handleEdit_def handleInputChange_def requiredFilled_def
      truthy_def exampleProduct_def)

text \<open>
  C9, amended. \<^verbatim>\<open>handleEdit\<close> sets the image of the form to null. After it, and after
  any sequence of field edits and of file selections none of which is an accepted
  file, a submission performs no effect, so no update reaches the backend and the
  stored image of the product cannot be reused; the message is the image-required one
  when name, description, price and category are all filled in, and the one about
  required fields otherwise.
\<close>

theorem edit_requires_new_image:
  assumes "\<forall>ev \<in> set evs. noNewImage e ev"
  shows "f_image (formData (handleEdit s p)) = None
         \<and> (let s' = foldl (formEvent e) (handleEdit s p) evs
            in handleSubmit e' s'
               = ([], s'\<lparr>error := Some (if requiredFilled (formData s')
                                        then ''Please select an image''
                                        else ''Please fill in all required fields'')\<rparr>))"
proof -
  have none: "f_image (formData (handleEdit s p)) = None"
    by (simp add: handleEdit_def)
  then have "f_image (formData (foldl (formEvent e) (handleEdit s p) evs)) = None"
    using formEvents_keep_image [OF assms] by simp
  then show ?thesis
    using none by (simp add: Let_def handleSubmit_without_image)
qed

theorem edit_requires_new_image_witness:
  "noNewImage exampleEnv (InputChange FPrice ''30'')
   \<and> noNewImage exampleEnv (ImageChange (Some pdfFile))
   \<and> noNewImage exampleEnv (ImageChange None)
   \<and> handleSubmit exampleEnv
       (foldl (formEvent exampleEnv) (handleEdit initialState exampleProduct)
          [InputChange FPrice ''30'', ImageChange (Some pdfFile), ImageChange None])
     = ([], (foldl (formEvent exampleEnv) (handleEdit initialState exampleProduct)
               [InputChange FPrice ''30'', ImageChange (Some pdfFile), ImageChange None])
            \<lparr>error := Some ''Please select an image''\<rparr>)"
proof -
  have h: "\<forall>ev \<in> set [InputChange FPrice ''30'', ImageChange (Some pdfFile), ImageChange None].
      noNewImage exampleEnv ev"
    by (simp add: accepted_def pdfFile_def startsWith_def)
  have "requiredFilled (formData
          (foldl (formEvent exampleEnv) (handleEdit initialState exampleProduct)
             [InputChange FPrice ''30'', ImageChange (Some pdfFile), ImageChange None]))"
    by (simp add: handleImageChange_def handleInputChange_def handleEdit_def pdfFile_def
        startsWith_def requiredFilled_def truthy_def exampleProduct_def)
  with edit_requires_new_image [OF h, of initialState exampleProduct exampleEnv] h
  show ?thesis
    by (simp add: Let_def del: noNewImage.simps)
qed

subsection \<open>A rejected selection\<close>

text \<open>
  C10. When a selected file is rejected, for its type, for its size or because it does
  not decode, the form data is unchanged in every field, the image included, and so
  is the product being edited; a submission after the failed selection therefore
  performs exactly the effects it would have performed before it, with the earlier
  image in the payload.
\<close>

theorem rejected_selection_keeps_form:
  assumes "\<not> accepted e f"
  shows "formData (snd (handleImageChange e s (Some f))) = formData s
         \<and> editingProduct (snd (handleImageChange e s (Some f))) = editingProduct s
         \<and> fst (handleSubmit e' (snd (handleImageChange e s (Some f)))) = fst (handleSubmit e' s)"
proof -
  from handleImageChange_not_accepted [OF assms, of s] obtain m
    where "snd (handleImageChange e s (Some f)) = s\<lparr>error := Some m\<rparr>" ..
  then show ?thesis
    by (simp add: handleSubmit_ignores_error)
qed

lemma brokenFile_not_accepted: "\<not> accepted exampleEnv brokenFile"
  by (simp add: accepted_def optimizeImage_def exampleEnv_def brokenFile_def)

lemma exampleState_submit:
  "fst (handleSubmit exampleEnv exampleState)
   = [CreateProduct
        \<lparr>d_name = Str ''Shirt'', d_description = Str ''Cotton shirt'', d_price = Fin 25,
         d_category = Str ''men'', d_stock = Fin 5,
         d_image = \<lparr>data = Some ''QUJD'', contentType = ''image/jpeg'', alt = Str ''Shirt''\<rparr>\<rparr>,
      GetAllProducts]"
  by (simp add: submit_defs example_defs parseFloatStr_25 parseIntStr_5)

theorem rejected_selection_keeps_form_witness:
  "\<not> accepted exampleEnv brokenFile
   \<and> f_image (formData (snd (handleImageChange exampleEnv exampleState (Some brokenFile))))
     = Some examplePayload
   \<and> fst (handleSubmit exampleEnv
            (snd (handleImageChange exampleEnv exampleState (Some brokenFile))))
     = [CreateProduct
          \<lparr>d_name = Str ''Shirt'', d_description = Str ''Cotton shirt'', d_price = Fin 25,
           d_category = Str ''men'', d_stock = Fin 5,
           d_image = \<lparr>data = Some ''QUJD'', contentType = ''image/jpeg'', alt = Str ''Shirt''\<rparr>\<rparr>,
        GetAllProducts]"
proof -
  have "f_image (formData exampleState) = Some examplePayload"
    by (simp add: exampleState_def exampleForm_def)
  with rejected_selection_keeps_form [OF brokenFile_not_accepted, of exampleState exampleEnv]
    brokenFile_not_accepted exampleState_submit
  show ?thesis
    by simp
qed

subsection \<open>The failure paths\<close>

lemma handleImageChange_reader_fails:
  assumes "startsWith (file_type f) ''image/''" "file_size f \<le> 5 * 1024 * 1024"
    and "readAsDataURL e f = None"
  shows "handleImageChange e s (Some f)
         = ([ReadAsDataURL f, ConsoleError ''Image processing error:''],
            s\<lparr>error := Some ''Error processing the image''\<rparr>)"
  using assms by (simp add: handleImageChange_def optimizeImage_def)

lemma handleImageChange_image_fails:
  assumes "startsWith (file_type f) ''image/''" "file_size f \<le> 5 * 1024 * 1024"
    and "readAsDataURL e f = Some src" "imageLoad e src = None"
  shows "handleImageChange e s (Some f)
         = ([ReadAsDataURL f, ImageLoad src, ConsoleError ''Image processing error:''],
            s\<lparr>error := Some ''Error processing the image''\<rparr>)"
  using assms by (simp add: handleImageChange_def optimizeImage_def)

lemma handleSubmit_missing_field:
  "\<not> requiredFilled (formData s) \<Longrightarrow>
   handleSubmit e s = ([], s\<lparr>error := Some ''Please fill in all required fields''\<rparr>)"
  by (simp add: handleSubmit_cases)

lemma handleSubmit_missing_image:
  "requiredFilled (formData s) \<Longrightarrow>
   (case f_image (formData s) of None \<Rightarrow> True | Some img \<Rightarrow> \<not> truthyData (data img)) \<Longrightarrow>
   handleSubmit e s = ([], s\<lparr>error := Some ''Please select an image''\<rparr>)"
  by (simp add: handleSubmit_cases split: option.splits)

lemma handleSubmit_validates:
  "requiredFilled (formData s) \<Longrightarrow> f_image (formData s) = Some img \<Longrightarrow> truthyData (data img) \<Longrightarrow>
   handleSubmit e s = validateAndSave e s img"
  by (simp add: handleSubmit_cases)

lemma fetchProducts_fails:
  "getAllProducts e = None \<Longrightarrow>
   fetchProducts e s
   = ([GetAllProducts, ConsoleError ''Error fetching products:''],
      s\<lparr>error := Some ''Failed to load products'', loading := False\<rparr>)"
  by (simp add: fetchProducts_def)

lemma handleDelete_fails:
  "confirm e ''Are you sure you want to delete this product?'' \<Longrightarrow> \<not> deleteProduct e i \<Longrightarrow>
   handleDelete e s i
   = ([Confirm ''Are you sure you want to delete this product?'', DeleteProduct i,
       ConsoleError ''Error deleting product:''],
      s\<lparr>error := Some ''Failed to delete product''\<rparr>)"
  by (simp add: handleDelete_def)

text \<open>
  C7. Every failure path sets one error message and leaves the rest of the state as it
  was: the state after it is the state before it with the field \<open>error\<close> replaced (and,
  when the list of products fails to load, the flag \<open>loading\<close> cleared), so the list of
  products, the form data and the image stored in it are unchanged. The effects are
  listed in full: a validation failure performs none, a failed decode reads the file
  once, a failed backend call is made once and logged, and nothing is tried again.
\<close>

theorem failure_paths_only_set_error:
  "(\<not> startsWith (file_type f) ''image/'' \<longrightarrow>
      handleImageChange e s (Some f) = ([], s\<lparr>error := Some ''Please select an image file''\<rparr>))
   \<and> (startsWith (file_type f) ''image/'' \<and> 5242880 < file_size f \<longrightarrow>
      handleImageChange e s (Some f)
      = ([], s\<lparr>error := Some ''Image size should be less than 5MB''\<rparr>))
   \<and> (startsWith (file_type f) ''image/'' \<and> file_size f \<le> 5242880 \<and> readAsDataURL e f = None \<longrightarrow>
      handleImageChange e s (Some f)
      = ([ReadAsDataURL f, ConsoleError ''Image processing error:''],
         s\<lparr>error := Some ''Error processing the image''\<rparr>))
   \<and> (startsWith (file_type f) ''image/'' \<and> file_size f \<le> 5242880
       \<and> readAsDataURL e f = Some src \<and> imageLoad e src = None \<longrightarrow>
      handleImageChange e s (Some f)
      = ([ReadAsDataURL f, ImageLoad src, ConsoleError ''Image processing error:''],
         s\<lparr>error := Some ''Error processing the image''\<rparr>))
   \<and> (\<not> requiredFilled (formData s) \<longrightarrow>
      handleSubmit e s = ([], s\<lparr>error := Some ''Please fill in all required fields''\<rparr>))
   \<and> (requiredFilled (formData s)
       \<and> (case f_image (formData s) of None \<Rightarrow> True | Some i \<Rightarrow> \<not> truthyData (data i)) \<longrightarrow>
      handleSubmit e s = ([], s\<lparr>error := Some ''Please select an image''\<rparr>))
   \<and> (requiredFilled (formData s) \<and> f_image (formData s) = Some img \<and> truthyData (data img)
       \<and> (isNaN (parseFloat e (f_price (formData s)))
          \<or> js_le (parseFloat e (f_price (formData s))) (Fin 0)) \<longrightarrow>
      handleSubmit e s = ([], s\<lparr>error := Some ''Please enter a valid price''\<rparr>))
   \<and> (requiredFilled (formData s) \<and> f_image (formData s) = Some img \<and> truthyData (data img)
       \<and> \<not> (isNaN (parseFloat e (f_price (formData s)))
            \<or> js_le (parseFloat e (f_price (formData s))) (Fin 0))
       \<and> js_lt (parseInt e (f_stock (formData s))) (Fin 0) \<longrightarrow>
      handleSubmit e s = ([], s\<lparr>error := Some ''Please enter a valid stock quantity''\<rparr>))
   \<and> (requiredFilled (formData s) \<and> f_image (formData s) = Some img \<and> truthyData (data img)
       \<and> passesValidation e (formData s) \<and> editingProduct s = None
       \<and> \<not> createProduct e (dataToSend e (formData s) img) \<longrightarrow>
      handleSubmit e s
      = ([CreateProduct (dataToSend e (formData s) img), ConsoleError ''Error saving product:''],
         s\<lparr>error := Some ''Failed to save product''\<rparr>))
   \<and> (requiredFilled (formData s) \<and> f_image (formData s) = Some img \<and> truthyData (data img)
       \<and> passesValidation e (formData s) \<and> editingProduct s = Some p
       \<and> \<not> updateProduct e (p_id p) (dataToSend e (formData s) img) \<longrightarrow>
      handleSubmit e s
      = ([UpdateProduct (p_id p) (dataToSend e (formData s) img),
          ConsoleError ''Error saving product:''],
         s\<lparr>error := Some ''Failed to save product''\<rparr>))
   \<and> (getAllProducts e = None \<longrightarrow>
      fetchProducts e s
      = ([GetAllProducts, ConsoleError ''Error fetching products:''],
         s\<lparr>error := Some ''Failed to load products'', loading := False\<rparr>))
   \<and> (confirm e ''Are you sure you want to delete this product?'' \<and> \<not> deleteProduct e i \<longrightarrow>
      handleDelete e s i
      = ([Confirm ''Are you sure you want to delete this product?'', DeleteProduct i,
          ConsoleError ''Error deleting product:''],
         s\<lparr>error := Some ''Failed to delete product''\<rparr>))"
proof (intro conjI impI; (elim conjE)?)
  show "handleImageChange e s (Some f) = ([], s\<lparr>error := Some ''Please select an image file''\<rparr>)"
    if "\<not> startsWith (file_type f) ''image/''"
    using that by (rule handleImageChange_wrong_type)
  show "handleImageChange e s (Some f)
      = ([], s\<lparr>error := Some ''Image size should be less than 5MB''\<rparr>)"
    if "startsWith (file_type f) ''image/''" "5242880 < file_size f"
    using that by (simp add: handleImageChange_too_large)
  show "handleImageChange e s (Some f)
      = ([ReadAsDataURL f, ConsoleError ''Image processing error:''],
         s\<lparr>error := Some ''Error processing the image''\<rparr>)"
    if "startsWith (file_type f) ''image/''" "file_size f \<le> 5242880" "readAsDataURL e f = None"
    using that by (simp add: handleImageChange_reader_fails)
  show "handleImageChange e s (Some f)
      = ([ReadAsDataURL f, ImageLoad src, ConsoleError ''Image processing error:''],
         s\<lparr>error := Some ''Error processing the image''\<rparr>)"
    if "startsWith (file_type f) ''image/''" "file_size f \<le> 5242880"
      "readAsDataURL e f = Some src" "imageLoad e src = None"
    using that by (simp add: handleImageChange_image_fails)
  show "handleSubmit e s = ([], s\<lparr>error := Some ''Please fill in all required fields''\<rparr>)"
    if "\<not> requiredFilled (formData s)"
    using that by (rule handleSubmit_missing_field)
  show "handleSubmit e s = ([], s\<lparr>error := Some ''Please select an image''\<rparr>)"
    if "requiredFilled (formData s)"
      "case f_image (formData s) of None \<Rightarrow> True | Some i \<Rightarrow> \<not> truthyData (data i)"
    using that by (rule handleSubmit_missing_image)
  show "handleSubmit e s = ([], s\<lparr>error := Some ''Please enter a valid price''\<rparr>)"
    if "requiredFilled (formData s)" "f_image (formData s) = Some img" "truthyData (data img)"
      "isNaN (parseFloat e (f_price (formData s)))
       \<or> js_le (parseFloat e (f_price (formData s))) (Fin 0)"
    using that by (simp add: handleSubmit_validates validateAndSave_bad_price)
  show "handleSubmit e s = ([], s\<lparr>error := Some ''Please enter a valid stock quantity''\<rparr>)"
    if "requiredFilled (formData s)" "f_image (formData s) = Some img" "truthyData (data img)"
      "\<not> (isNaN (parseFloat e (f_price (formData s)))
          \<or> js_le (parseFloat e (f_price (formData s))) (Fin 0))"
      "js_lt (parseInt e (f_stock (formData s))) (Fin 0)"
    using that by (simp add: handleSubmit_validates validateAndSave_negative_stock)
  show "handleSubmit e s
      = ([CreateProduct (dataToSend e (formData s) img), ConsoleError ''Error saving product:''],
         s\<lparr>error := Some ''Failed to save product''\<rparr>)"
    if "requiredFilled (formData s)" "f_image (formData s) = Some img" "truthyData (data img)"
      "passesValidation e (formData s)" "editingProduct s = None"
      "\<not> createProduct e (dataToSend e (formData s) img)"
    using that by (simp add: handleSubmit_validates validateAndSave_save_fails)
  show "handleSubmit e s
      = ([UpdateProduct (p_id p) (dataToSend e (formData s) img),
          ConsoleError ''Error saving product:''],
         s\<lparr>error := Some ''Failed to save product''\<rparr>)"
    if "requiredFilled (formData s)" "f_image (formData s) = Some img" "truthyData (data img)"
      "passesValidation e (formData s)" "editingProduct s = Some p"
      "\<not> updateProduct e (p_id p) (dataToSend e (formData s) img)"
    using that by (simp add: handleSubmit_validates validateAndSave_save_fails)
  show "fetchProducts e s
      = ([GetAllProducts, ConsoleError ''Error fetching products:''],
         s\<lparr>error := Some ''Failed to load products'', loading := False\<rparr>)"
    if "getAllProducts e = None"
    using that by (rule fetchProducts_fails)
  show "handleDelete e s i
      = ([Confirm ''Are you sure you want to delete this product?'', DeleteProduct i,
          ConsoleError ''Error deleting product:''],
         s\<lparr>error := Some ''Failed to delete product''\<rparr>)"
    if "confirm e ''Are you sure you want to delete this product?''" "\<not> deleteProduct e i"
    using that by (rule handleDelete_fails)
qed


lemma exampleState_valid:
  "requiredFilled (formData exampleState)"
  "f_image (formData exampleState) = Some examplePayload"
  "truthyData (data examplePayload)"
  "passesValidation exampleEnv (formData exampleState)"
  "passesValidation offlineEnv (formData exampleState)"
  "editingProduct exampleState = None"
  by (simp_all add: requiredFilled_def passesValidation_def submit_defs example_defs
      parseFloatStr_25 parseIntStr_5)

theorem failure_paths_only_set_error_witness:
  "handleImageChange exampleEnv exampleState (Some pdfFile)
   = ([], exampleState\<lparr>error := Some ''Please select an image file''\<rparr>)
   \<and> handleImageChange exampleEnv exampleState (Some hugeFile)
     = ([], exampleState\<lparr>error := Some ''Image size should be less than 5MB''\<rparr>)
   \<and> handleImageChange (exampleEnv\<lparr>readAsDataURL := \<lambda>f. None\<rparr>) exampleState (Some pngFile)
     = ([ReadAsDataURL pngFile, ConsoleError ''Image processing error:''],
        exampleState\<lparr>error := Some ''Error processing the image''\<rparr>)
   \<and> handleImageChange exampleEnv exampleState (Some brokenFile)
     = ([ReadAsDataURL brokenFile, ImageLoad ''data:image/png;base64,broken.png'',
         ConsoleError ''Image processing error:''],
        exampleState\<lparr>error := Some ''Error processing the image''\<rparr>)
   \<and> handleSubmit exampleEnv initialState
     = ([], initialState\<lparr>error := Some ''Please fill in all required fields''\<rparr>)
   \<and> handleSubmit exampleEnv (exampleState\<lparr>formData := exampleForm\<lparr>f_image := None\<rparr>\<rparr>)
     = ([], exampleState\<lparr>formData := exampleForm\<lparr>f_image := None\<rparr>,
                         error := Some ''Please select an image''\<rparr>)
   \<and> handleSubmit exampleEnv (exampleState\<lparr>formData := exampleForm\<lparr>f_price := Str ''abc''\<rparr>\<rparr>)
     = ([], exampleState\<lparr>formData := exampleForm\<lparr>f_price := Str ''abc''\<rparr>,
                         error := Some ''Please enter a valid price''\<rparr>)
   \<and> handleSubmit exampleEnv (exampleState\<lparr>formData := exampleForm\<lparr>f_stock := Str ''-3''\<rparr>\<rparr>)
     = ([], exampleState\<lparr>formData := exampleForm\<lparr>f_stock := Str ''-3''\<rparr>,
                         error := Some ''Please enter a valid stock quantity''\<rparr>)
   \<and> handleSubmit offlineEnv exampleState
     = ([CreateProduct (dataToSend offlineEnv (formData exampleState) examplePayload),
         ConsoleError ''Error saving product:''],
        exampleState\<lparr>error := Some ''Failed to save product''\<rparr>)
   \<and> handleSubmit offlineEnv (exampleState\<lparr>editingProduct := Some exampleProduct\<rparr>)
     = ([UpdateProduct ''p1''
           (dataToSend offlineEnv (formData exampleState) examplePayload),
         ConsoleError ''Error saving product:''],
        exampleState\<lparr>editingProduct := Some exampleProduct,
                       error := Some ''Failed to save product''\<rparr>)
   \<and> fetchProducts offlineEnv exampleState
     = ([GetAllProducts, ConsoleError ''Error fetching products:''],
        exampleState\<lparr>error := Some ''Failed to load products'', loading := False\<rparr>)
   \<and> handleDelete offlineEnv exampleState ''p1''
     = ([Confirm ''Are you sure you want to delete this product?'', DeleteProduct ''p1'',
         ConsoleError ''Error deleting product:''],
        exampleState\<lparr>error := Some ''Failed to delete product''\<rparr>)"
proof -
  have w1: "handleImageChange exampleEnv exampleState (Some pdfFile)
      = ([], exampleState\<lparr>error := Some ''Please select an image file''\<rparr>)"
    by (rule failure_paths_only_set_error
        [where src = "''data:image/png;base64,broken.png''" and img = examplePayload
           and p = exampleProduct and i = "''p1''" and f = pdfFile and e = exampleEnv
           and s = exampleState, THEN conjunct1, THEN mp])
      (simp add: pdfFile_def startsWith_def)
  have w2: "handleImageChange exampleEnv exampleState (Some hugeFile)
      = ([], exampleState\<lparr>error := Some ''Image size should be less than 5MB''\<rparr>)"
    by (rule failure_paths_only_set_error
        [where src = "''data:image/png;base64,broken.png''" and img = examplePayload
           and p = exampleProduct and i = "''p1''" and f = hugeFile and e = exampleEnv
           and s = exampleState, THEN conjunct2, THEN conjunct1, THEN mp])
      (simp add: hugeFile_def startsWith_def)
  have w3: "handleImageChange (exampleEnv\<lparr>readAsDataURL := \<lambda>f. None\<rparr>) exampleState (Some pngFile)
      = ([ReadAsDataURL pngFile, ConsoleError ''Image processing error:''],
         exampleState\<lparr>error := Some ''Error processing the image''\<rparr>)"
    by (rule failure_paths_only_set_error
        [where src = "''data:image/png;base64,broken.png''" and img = examplePayload
           and p = exampleProduct and i = "''p1''" and f = pngFile and e = "exampleEnv\<lparr>readAsDataURL := \<lambda>f. None\<rparr>"
           and s = exampleState, THEN conjunct2, THEN conjunct2, THEN conjunct1, THEN mp])
      (simp add: pngFile_def startsWith_def)
  have w4: "handleImageChange exampleEnv exampleState (Some brokenFile)
      = ([ReadAsDataURL brokenFile, ImageLoad ''data:image/png;base64,broken.png'',
          ConsoleError ''Image processing error:''],
         exampleState\<lparr>error := Some ''Error processing the image''\<rparr>)"
    by (rule failure_paths_only_set_error
        [where src = "''data:image/png;base64,broken.png''" and img = examplePayload
           and p = exampleProduct and i = "''p1''" and f = brokenFile and e = exampleEnv
           and s = exampleState, THEN conjunct2, THEN conjunct2, THEN conjunct2, THEN conjunct1, THEN mp])
      (simp add: brokenFile_def startsWith_def exampleEnv_def)
  have w5: "handleSubmit exampleEnv initialState
      = ([], initialState\<lparr>error := Some ''Please fill in all required fields''\<rparr>)"
    by (rule failure_paths_only_set_error
        [where src = "''data:image/png;base64,broken.png''" and img = examplePayload
           and p = exampleProduct and i = "''p1''" and f = pdfFile and e = exampleEnv
           and s = initialState, THEN conjunct2, THEN conjunct2, THEN conjunct2, THEN conjunct2, THEN conjunct1, THEN mp])
      (simp add: requiredFilled_def truthy_def initialState_def closedForm_def)
  have w6: "handleSubmit exampleEnv (exampleState\<lparr>formData := exampleForm\<lparr>f_image := None\<rparr>\<rparr>)
      = ([], exampleState\<lparr>formData := exampleForm\<lparr>f_image := None\<rparr>,
                          error := Some ''Please select an image''\<rparr>)"
    by (rule failure_paths_only_set_error
        [where src = "''data:image/png;base64,broken.png''" and img = examplePayload
           and p = exampleProduct and i = "''p1''" and f = pdfFile and e = exampleEnv
           and s = "exampleState\<lparr>formData := exampleForm\<lparr>f_image := None\<rparr>\<rparr>", THEN conjunct2, THEN conjunct2, THEN conjunct2, THEN conjunct2, THEN conjunct2, THEN conjunct1, THEN mp])
      (simp add: requiredFilled_def truthy_def exampleForm_def)
  have w7: "handleSubmit exampleEnv (exampleState\<lparr>formData := exampleForm\<lparr>f_price := Str ''abc''\<rparr>\<rparr>)
      = ([], exampleState\<lparr>formData := exampleForm\<lparr>f_price := Str ''abc''\<rparr>,
                          error := Some ''Please enter a valid price''\<rparr>)"
    by (rule failure_paths_only_set_error
        [where src = "''data:image/png;base64,broken.png''" and img = examplePayload
           and p = exampleProduct and i = "''p1''" and f = pdfFile and e = exampleEnv
           and s = "exampleState\<lparr>formData := exampleForm\<lparr>f_price := Str ''abc''\<rparr>\<rparr>", THEN conjunct2, THEN conjunct2, THEN conjunct2, THEN conjunct2, THEN conjunct2, THEN conjunct2, THEN conjunct1, THEN mp])
      (simp add: requiredFilled_def truthy_def truthyData_def exampleForm_def
          examplePayload_def parseFloat_def toString_def parseFloatStr_abc isNaN_def)
  have w8: "handleSubmit exampleEnv (exampleState\<lparr>formData := exampleForm\<lparr>f_stock := Str ''-3''\<rparr>\<rparr>)
      = ([], exampleState\<lparr>formData := exampleForm\<lparr>f_stock := Str ''-3''\<rparr>,
                          error := Some ''Please enter a valid stock quantity''\<rparr>)"
    by (rule failure_paths_only_set_error
        [where src = "''data:image/png;base64,broken.png''" and img = examplePayload
           and p = exampleProduct and i = "''p1''" and f = pdfFile and e = exampleEnv
           and s = "exampleState\<lparr>formData := exampleForm\<lparr>f_stock := Str ''-3''\<rparr>\<rparr>", THEN conjunct2, THEN conjunct2, THEN conjunct2, THEN conjunct2, THEN conjunct2, THEN conjunct2, THEN conjunct2, THEN conjunct1, THEN mp])
      (simp add: requiredFilled_def truthy_def truthyData_def exampleForm_def
          examplePayload_def parseFloat_def parseInt_def toString_def parseFloatStr_25
          parseIntStr_minus3 isNaN_def js_le_def)
  have w9: "handleSubmit offlineEnv exampleState
      = ([CreateProduct (dataToSend offlineEnv (formData exampleState) examplePayload),
          ConsoleError ''Error saving product:''],
         exampleState\<lparr>error := Some ''Failed to save product''\<rparr>)"
    by (rule failure_paths_only_set_error
        [where src = "''data:image/png;base64,broken.png''" and img = examplePayload
           and p = exampleProduct and i = "''p1''" and f = pdfFile and e = offlineEnv
           and s = exampleState, THEN conjunct2, THEN conjunct2, THEN conjunct2, THEN conjunct2, THEN conjunct2, THEN conjunct2, THEN conjunct2, THEN conjunct2, THEN conjunct1, THEN mp])
      (simp add: exampleState_valid, simp add: offlineEnv_def)
  have w10: "handleSubmit offlineEnv (exampleState\<lparr>editingProduct := Some exampleProduct\<rparr>)
      = ([UpdateProduct (p_id exampleProduct) (dataToSend offlineEnv
             (formData (exampleState\<lparr>editingProduct := Some exampleProduct\<rparr>)) examplePayload),
          ConsoleError ''Error saving product:''],
         exampleState\<lparr>editingProduct := Some exampleProduct,
                        error := Some ''Failed to save product''\<rparr>)"
    by (rule failure_paths_only_set_error
        [where src = "''data:image/png;base64,broken.png''" and img = examplePayload
           and p = exampleProduct and i = "''p1''" and f = pdfFile and e = offlineEnv
           and s = "exampleState\<lparr>editingProduct := Some exampleProduct\<rparr>", THEN conjunct2, THEN conjunct2, THEN conjunct2, THEN conjunct2, THEN conjunct2, THEN conjunct2, THEN conjunct2, THEN conjunct2, THEN conjunct2, THEN conjunct1, THEN mp])
      (simp add: exampleState_valid, simp add: offlineEnv_def)
  have w11: "fetchProducts offlineEnv exampleState
      = ([GetAllProducts, ConsoleError ''Error fetching products:''],
         exampleState\<lparr>error := Some ''Failed to load products'', loading := False\<rparr>)"
    by (rule failure_paths_only_set_error
        [where src = "''data:image/png;base64,broken.png''" and img = examplePayload
           and p = exampleProduct and i = "''p1''" and f = pdfFile and e = offlineEnv
           and s = exampleState, THEN conjunct2, THEN conjunct2, THEN conjunct2, THEN conjunct2, THEN conjunct2, THEN conjunct2, THEN conjunct2, THEN conjunct2, THEN conjunct2, THEN conjunct2, THEN conjunct1, THEN mp])
      (simp add: offlineEnv_def)
  have w12: "handleDelete offlineEnv exampleState ''p1''
      = ([Confirm ''Are you sure you want to delete this product?'', DeleteProduct ''p1'',
          ConsoleError ''Error deleting product:''],
         exampleState\<lparr>error := Some ''Failed to delete product''\<rparr>)"
    by (rule failure_paths_only_set_error
        [where src = "''data:image/png;base64,broken.png''" and img = examplePayload
           and p = exampleProduct and i = "''p1''" and f = pdfFile and e = offlineEnv
           and s = exampleState, THEN conjunct2, THEN conjunct2, THEN conjunct2, THEN conjunct2, THEN conjunct2, THEN conjunct2, THEN conjunct2, THEN conjunct2, THEN conjunct2, THEN conjunct2, THEN conjunct2, THEN mp])
      (simp add: offlineEnv_def exampleEnv_def)
  have w10': "handleSubmit offlineEnv (exampleState\<lparr>editingProduct := Some exampleProduct\<rparr>)
      = ([UpdateProduct ''p1'' (dataToSend offlineEnv (formData exampleState) examplePayload),
          ConsoleError ''Error saving product:''],
         exampleState\<lparr>editingProduct := Some exampleProduct,
                        error := Some ''Failed to save product''\<rparr>)"
    using w10 by (simp add: exampleProduct_def)
  from w1 w2 w3 w4 w5 w6 w7 w8 w9 w10' w11 w12 show ?thesis
    by (intro conjI)
qed

end
